theory Spec2Isabelle
  imports
    Main
    "HOL-Library.Word"
    "HOL-Library.Multiset"
    "HOL-Library.Char_ord"
    "HOL-Library.List_Lexorder"
    "HOL-Library.Product_Lexorder"
begin

unbundle bit_operations_syntax

section \<open>Python values\<close>

text \<open>
  The signer of \<^verbatim>\<open>django_ogone/security.py\<close> is Python 2 code (it defines
  \<^verbatim>\<open>__unicode__\<close>, and its doctests print the encoded string without a bytes prefix).
  A parameter value is a byte string, an integer, a truth value or \<^verbatim>\<open>None\<close>; a
  dictionary is the list of its items in iteration order, with pairwise distinct keys.
  A float is left out, since its conversion to a string is not modelled; like a truth
  value, it can compare equal to an integer and print differently.
\<close>

datatype pyval = PNone | PInt int | PBool bool | PStr string

datatype error = AssertionError | AttributeError | UnicodeDecodeError

type_synonym dict = "(string \<times> pyval) list"

text \<open>
  Python 2 compares values of different types: \<^verbatim>\<open>None\<close> is below everything, and a
  number is below a string. Numbers compare by value, and a truth value is a number
  (\<^verbatim>\<open>False\<close> is 0 and \<^verbatim>\<open>True\<close> is 1); byte strings compare bytewise. The rank of a value
  is what a comparison sees of it: two values compare as their ranks do, and they are equal
  for \<^verbatim>\<open>==\<close> when their ranks are the same. Different values can have the same rank, as
  \<^verbatim>\<open>1\<close> and \<^verbatim>\<open>True\<close> do.
\<close>

datatype rank = RNone | RNum int | RStr string

instantiation rank :: linorder
begin

fun less_eq_rank :: "rank \<Rightarrow> rank \<Rightarrow> bool" where
  "less_eq_rank RNone _ = True"
| "less_eq_rank (RNum _) RNone = False"
| "less_eq_rank (RNum i) (RNum j) = (i \<le> j)"
| "less_eq_rank (RNum _) (RStr _) = True"
| "less_eq_rank (RStr _) RNone = False"
| "less_eq_rank (RStr _) (RNum _) = False"
| "less_eq_rank (RStr s) (RStr t) = (s \<le> t)"

definition less_rank :: "rank \<Rightarrow> rank \<Rightarrow> bool" where
  "less_rank x y = (x \<le> y \<and> \<not> y \<le> x)"

instance
proof
  fix x y z :: rank
  show "(x < y) = (x \<le> y \<and> \<not> y \<le> x)"
    by (simp add: less_rank_def)
  show "x \<le> x"
    by (cases x) simp_all
  show "x \<le> y \<Longrightarrow> y \<le> z \<Longrightarrow> x \<le> z"
    by (cases x; cases y; cases z) auto
  show "x \<le> y \<Longrightarrow> y \<le> x \<Longrightarrow> x = y"
    by (cases x; cases y) auto
  show "x \<le> y \<or> y \<le> x"
    by (cases x; cases y) auto
qed

end

fun rank_of :: "pyval \<Rightarrow> rank" where
  "rank_of PNone = RNone"
| "rank_of (PInt i) = RNum i"
| "rank_of (PBool b) = RNum (if b then 1 else 0)"
| "rank_of (PStr s) = RStr s"

text \<open>
  A tuple of a key and a value compares by the key and then by the value: this is what the
  sort sees of a pair.
\<close>

fun tuple_rank :: "string \<times> pyval \<Rightarrow> string \<times> rank" where
  "tuple_rank (k, v) = (k, rank_of v)"

subsection \<open>Conversion to a string\<close>

text \<open>
  \<^verbatim>\<open>str(v)\<close> and the \<^verbatim>\<open>%s\<close> conversion: decimal digits for an integer, the name for a
  truth value.
\<close>

function str_nat :: "nat \<Rightarrow> string" where
  "str_nat n =
     (if n < 10 then [''0123456789'' ! n]
      else str_nat (n div 10) @ [''0123456789'' ! (n mod 10)])"
  by pat_completeness auto
termination
  by (relation "measure (\<lambda>n. n)") auto

declare str_nat.simps [simp del]

definition str_int :: "int \<Rightarrow> string" where
  "str_int i = (if i < 0 then ''-'' @ str_nat (nat (- i)) else str_nat (nat i))"

fun py_str :: "pyval \<Rightarrow> string" where
  "py_str PNone = ''None''"
| "py_str (PInt i) = str_int i"
| "py_str (PBool b) = (if b then ''True'' else ''False'')"
| "py_str (PStr s) = s"

subsection \<open>Upper case\<close>

text \<open>\<^verbatim>\<open>str.upper()\<close> on a byte string maps the letters a to z and keeps every other byte.\<close>

definition upper_char :: "char \<Rightarrow> char" where
  "upper_char c =
     (case map_of (zip ''abcdefghijklmnopqrstuvwxyz'' ''ABCDEFGHIJKLMNOPQRSTUVWXYZ'') c of
        None \<Rightarrow> c
      | Some u \<Rightarrow> u)"

definition upper :: "string \<Rightarrow> string" where
  "upper s = map upper_char s"

subsection \<open>Joining and encoding\<close>

text \<open>\<^verbatim>\<open>sep.join(xs)\<close>.\<close>

fun join :: "string \<Rightarrow> string list \<Rightarrow> string" where
  "join sep [] = []"
| "join sep [x] = x"
| "join sep (x # y # ys) = x @ sep @ join sep (y # ys)"

text \<open>
  A codec is the function that \<^verbatim>\<open>s.encode(name)\<close> applies to a byte string. The default
  \<^verbatim>\<open>'utf8'\<close> first decodes the byte string as ASCII, which fails on a byte above 127, and
  encodes the text again, which gives the same bytes back.
\<close>

type_synonym codec = "string \<Rightarrow> error + string"

definition utf8 :: codec where
  "utf8 s = (if list_all (\<lambda>c. (of_char c :: nat) < 128) s then Inr s else Inl UnicodeDecodeError)"

section \<open>hashlib\<close>

text \<open>
  \<^verbatim>\<open>hashlib.sha1\<close>, \<^verbatim>\<open>hashlib.sha256\<close> and \<^verbatim>\<open>hashlib.sha512\<close> belong to Python's
  standard library. They compute the Secure Hash Algorithms of FIPS 180-4, which are
  written out here: words are machine words, bytes are numbers below 256.
\<close>

subsection \<open>Bytes and words\<close>

fun be_bytes :: "nat \<Rightarrow> nat \<Rightarrow> nat list" where
  "be_bytes 0 n = []"
| "be_bytes (Suc k) n = be_bytes k (n div 256) @ [n mod 256]"

fun be_words32 :: "nat list \<Rightarrow> 32 word list" where
  "be_words32 (a # b # c # d # bs) =
     word_of_nat (((a * 256 + b) * 256 + c) * 256 + d) # be_words32 bs"
| "be_words32 _ = []"

fun be_words64 :: "nat list \<Rightarrow> 64 word list" where
  "be_words64 (a # b # c # d # e # f # g # h # bs) =
     word_of_nat (((((((a * 256 + b) * 256 + c) * 256 + d) * 256 + e) * 256 + f) * 256 + g) * 256 + h)
       # be_words64 bs"
| "be_words64 _ = []"

function chunks :: "nat \<Rightarrow> 'a list \<Rightarrow> 'a list list" where
  "chunks n xs = (if n = 0 \<or> xs = [] then [] else take n xs # chunks n (drop n xs))"
  by pat_completeness auto
termination
  by (relation "measure (\<lambda>(n, xs). length xs)") auto

declare chunks.simps [simp del]

text \<open>
  Padding: the byte 128, zero bytes up to the length field, and the length of the message
  in bits. The block has 64 bytes and the length field 8 for SHA-1 and SHA-256; 128 bytes
  and 16 for SHA-512.
\<close>

definition pad64 :: "nat list \<Rightarrow> nat list" where
  "pad64 bs =
     bs @ [128] @ replicate ((119 - length bs mod 64) mod 64) 0 @ be_bytes 8 (8 * length bs)"

definition pad128 :: "nat list \<Rightarrow> nat list" where
  "pad128 bs =
     bs @ [128] @ replicate ((239 - length bs mod 128) mod 128) 0 @ be_bytes 16 (8 * length bs)"

definition rotl :: "nat \<Rightarrow> 'a::len word \<Rightarrow> 'a word" where
  "rotl n x = push_bit n x OR drop_bit (LENGTH('a) - n) x"

definition rotr :: "nat \<Rightarrow> 'a::len word \<Rightarrow> 'a word" where
  "rotr n x = drop_bit n x OR push_bit (LENGTH('a) - n) x"

definition Ch :: "'a::len word \<Rightarrow> 'a word \<Rightarrow> 'a word \<Rightarrow> 'a word" where
  "Ch x y z = (x AND y) XOR (NOT x AND z)"

definition Maj :: "'a::len word \<Rightarrow> 'a word \<Rightarrow> 'a word \<Rightarrow> 'a word" where
  "Maj x y z = (x AND y) XOR (x AND z) XOR (y AND z)"

definition Parity :: "'a::len word \<Rightarrow> 'a word \<Rightarrow> 'a word \<Rightarrow> 'a word" where
  "Parity x y z = x XOR y XOR z"

subsection \<open>SHA-1\<close>

type_synonym sha1_state = "32 word \<times> 32 word \<times> 32 word \<times> 32 word \<times> 32 word"

definition sha1_f :: "nat \<Rightarrow> 32 word \<Rightarrow> 32 word \<Rightarrow> 32 word \<Rightarrow> 32 word" where
  "sha1_f t b c d =
     (if t < 20 then Ch b c d
      else if t < 40 then Parity b c d
      else if t < 60 then Maj b c d
      else Parity b c d)"

definition sha1_k :: "nat \<Rightarrow> 32 word" where
  "sha1_k t =
     (if t < 20 then 0x5A827999
      else if t < 40 then 0x6ED9EBA1
      else if t < 60 then 0x8F1BBCDC
      else 0xCA62C1D6)"

fun sha1_step :: "nat \<Rightarrow> sha1_state \<Rightarrow> 32 word \<Rightarrow> sha1_state" where
  "sha1_step t (a, b, c, d, e) w =
     (rotl 5 a + sha1_f t b c d + e + sha1_k t + w, a, rotl 30 b, c, d)"

text \<open>
  The message schedule is kept as a window of sixteen words: in round \<open>t\<close> the window
  holds \<open>W t\<close> to \<open>W (t + 15)\<close>, and \<open>W (t + 16)\<close> is made of the entries 13, 8, 2 and 0.
\<close>

definition sha1_next :: "32 word list \<Rightarrow> 32 word" where
  "sha1_next w = rotl 1 (w ! 13 XOR w ! 8 XOR w ! 2 XOR w ! 0)"

function sha1_rounds :: "nat \<Rightarrow> 32 word list \<Rightarrow> sha1_state \<Rightarrow> sha1_state" where
  "sha1_rounds t w st =
     (if t < 80 then sha1_rounds (t + 1) (tl w @ [sha1_next w]) (sha1_step t st (hd w))
      else st)"
  by pat_completeness auto
termination
  by (relation "measure (\<lambda>(t, w, st). 80 - t)") auto

declare sha1_rounds.simps [simp del]

fun sha1_add :: "sha1_state \<Rightarrow> sha1_state \<Rightarrow> sha1_state" where
  "sha1_add (h0, h1, h2, h3, h4) (a, b, c, d, e) = (h0 + a, h1 + b, h2 + c, h3 + d, h4 + e)"

definition sha1_compress :: "sha1_state \<Rightarrow> 32 word list \<Rightarrow> sha1_state" where
  "sha1_compress h block = sha1_add h (sha1_rounds 0 block h)"

definition sha1_init :: sha1_state where
  "sha1_init = (0x67452301, 0xEFCDAB89, 0x98BADCFE, 0x10325476, 0xC3D2E1F0)"

definition sha1_blocks :: "string \<Rightarrow> 32 word list list" where
  "sha1_blocks msg = chunks 16 (be_words32 (pad64 (map of_char msg)))"

fun sha1_out :: "sha1_state \<Rightarrow> nat list" where
  "sha1_out (h0, h1, h2, h3, h4) = concat (map (\<lambda>h. be_bytes 4 (unat h)) [h0, h1, h2, h3, h4])"

definition sha1 :: "string \<Rightarrow> nat list" where
  "sha1 msg = sha1_out (foldl sha1_compress sha1_init (sha1_blocks msg))"

subsection \<open>SHA-256 and SHA-512\<close>

text \<open>
  Both run the same rounds on eight working words, over 32-bit and over 64-bit words, with
  their own rotation amounts and round constants. The window holds \<open>W t\<close> to
  \<open>W (t + 15)\<close>; \<open>W (t + 16)\<close> is made of the entries 14, 9, 1 and 0.
\<close>

type_synonym 'a sha2_state =
  "'a word \<times> 'a word \<times> 'a word \<times> 'a word \<times> 'a word \<times> 'a word \<times> 'a word \<times> 'a word"

text \<open>The parameters are the functions \<open>\<Sigma>0\<close>, \<open>\<Sigma>1\<close>, \<open>\<sigma>0\<close> and \<open>\<sigma>1\<close> of the standard, in this order.\<close>

type_synonym 'a sha2_params =
  "('a word \<Rightarrow> 'a word) \<times> ('a word \<Rightarrow> 'a word) \<times> ('a word \<Rightarrow> 'a word) \<times> ('a word \<Rightarrow> 'a word)"

fun sha2_T1 :: "'a::len sha2_params \<Rightarrow> 'a word \<Rightarrow> 'a sha2_state \<Rightarrow> 'a word \<Rightarrow> 'a word" where
  "sha2_T1 (Sigma0, Sigma1, sigma0, sigma1) k (a, b, c, d, e, f, g, h) w =
     h + Sigma1 e + Ch e f g + k + w"

fun sha2_T2 :: "'a::len sha2_params \<Rightarrow> 'a sha2_state \<Rightarrow> 'a word" where
  "sha2_T2 (Sigma0, Sigma1, sigma0, sigma1) (a, b, c, d, e, f, g, h) = Sigma0 a + Maj a b c"

fun sha2_update :: "'a::len word \<Rightarrow> 'a word \<Rightarrow> 'a sha2_state \<Rightarrow> 'a sha2_state" where
  "sha2_update T1 T2 (a, b, c, d, e, f, g, h) = (T1 + T2, a, b, c, d + T1, e, f, g)"

definition sha2_step ::
  "'a::len sha2_params \<Rightarrow> 'a word \<Rightarrow> 'a sha2_state \<Rightarrow> 'a word \<Rightarrow> 'a sha2_state" where
  "sha2_step p k st w = sha2_update (sha2_T1 p k st w) (sha2_T2 p st) st"

fun sha2_next :: "'a::len sha2_params \<Rightarrow> 'a word list \<Rightarrow> 'a word" where
  "sha2_next (Sigma0, Sigma1, sigma0, sigma1) w = sigma1 (w ! 14) + w ! 9 + sigma0 (w ! 1) + w ! 0"

fun sha2_rounds ::
  "'a::len sha2_params \<Rightarrow> 'a word list \<Rightarrow> 'a word list \<Rightarrow> 'a sha2_state \<Rightarrow> 'a sha2_state" where
  "sha2_rounds p [] w st = st"
| "sha2_rounds p (k # ks) w st =
     sha2_rounds p ks (tl w @ [sha2_next p w]) (sha2_step p k st (hd w))"

fun sha2_add :: "'a::len sha2_state \<Rightarrow> 'a sha2_state \<Rightarrow> 'a sha2_state" where
  "sha2_add (h0, h1, h2, h3, h4, h5, h6, h7) (a, b, c, d, e, f, g, h) =
     (h0 + a, h1 + b, h2 + c, h3 + d, h4 + e, h5 + f, h6 + g, h7 + h)"

definition sha2_compress ::
  "'a::len sha2_params \<Rightarrow> 'a word list \<Rightarrow> 'a sha2_state \<Rightarrow> 'a word list \<Rightarrow> 'a sha2_state" where
  "sha2_compress p ks h block = sha2_add h (sha2_rounds p ks block h)"

fun sha2_out :: "nat \<Rightarrow> 'a::len sha2_state \<Rightarrow> nat list" where
  "sha2_out n (h0, h1, h2, h3, h4, h5, h6, h7) =
     concat (map (\<lambda>h. be_bytes n (unat h)) [h0, h1, h2, h3, h4, h5, h6, h7])"

definition sha256_params :: "32 sha2_params" where
  "sha256_params =
     ((\<lambda>x. rotr 2 x XOR rotr 13 x XOR rotr 22 x),
      (\<lambda>x. rotr 6 x XOR rotr 11 x XOR rotr 25 x),
      (\<lambda>x. rotr 7 x XOR rotr 18 x XOR drop_bit 3 x),
      (\<lambda>x. rotr 17 x XOR rotr 19 x XOR drop_bit 10 x))"

definition sha256_K :: "32 word list" where
  "sha256_K =
    [
     0x428A2F98, 0x71374491, 0xB5C0FBCF, 0xE9B5DBA5, 0x3956C25B, 0x59F111F1,
     0x923F82A4, 0xAB1C5ED5, 0xD807AA98, 0x12835B01, 0x243185BE, 0x550C7DC3,
     0x72BE5D74, 0x80DEB1FE, 0x9BDC06A7, 0xC19BF174, 0xE49B69C1, 0xEFBE4786,
     0x0FC19DC6, 0x240CA1CC, 0x2DE92C6F, 0x4A7484AA, 0x5CB0A9DC, 0x76F988DA,
     0x983E5152, 0xA831C66D, 0xB00327C8, 0xBF597FC7, 0xC6E00BF3, 0xD5A79147,
     0x06CA6351, 0x14292967, 0x27B70A85, 0x2E1B2138, 0x4D2C6DFC, 0x53380D13,
     0x650A7354, 0x766A0ABB, 0x81C2C92E, 0x92722C85, 0xA2BFE8A1, 0xA81A664B,
     0xC24B8B70, 0xC76C51A3, 0xD192E819, 0xD6990624, 0xF40E3585, 0x106AA070,
     0x19A4C116, 0x1E376C08, 0x2748774C, 0x34B0BCB5, 0x391C0CB3, 0x4ED8AA4A,
     0x5B9CCA4F, 0x682E6FF3, 0x748F82EE, 0x78A5636F, 0x84C87814, 0x8CC70208,
     0x90BEFFFA, 0xA4506CEB, 0xBEF9A3F7, 0xC67178F2]"

definition sha256_init :: "32 sha2_state" where
  "sha256_init =
    (0x6A09E667, 0xBB67AE85, 0x3C6EF372, 0xA54FF53A, 0x510E527F, 0x9B05688C, 0x1F83D9AB, 0x5BE0CD19)"

definition sha256_blocks :: "string \<Rightarrow> 32 word list list" where
  "sha256_blocks msg = chunks 16 (be_words32 (pad64 (map of_char msg)))"

definition sha256 :: "string \<Rightarrow> nat list" where
  "sha256 msg =
     sha2_out 4 (foldl (sha2_compress sha256_params sha256_K) sha256_init (sha256_blocks msg))"

definition sha512_params :: "64 sha2_params" where
  "sha512_params =
     ((\<lambda>x. rotr 28 x XOR rotr 34 x XOR rotr 39 x),
      (\<lambda>x. rotr 14 x XOR rotr 18 x XOR rotr 41 x),
      (\<lambda>x. rotr 1 x XOR rotr 8 x XOR drop_bit 7 x),
      (\<lambda>x. rotr 19 x XOR rotr 61 x XOR drop_bit 6 x))"

definition sha512_K :: "64 word list" where
  "sha512_K =
    [
     0x428A2F98D728AE22, 0x7137449123EF65CD, 0xB5C0FBCFEC4D3B2F, 0xE9B5DBA58189DBBC,
     0x3956C25BF348B538, 0x59F111F1B605D019, 0x923F82A4AF194F9B, 0xAB1C5ED5DA6D8118,
     0xD807AA98A3030242, 0x12835B0145706FBE, 0x243185BE4EE4B28C, 0x550C7DC3D5FFB4E2,
     0x72BE5D74F27B896F, 0x80DEB1FE3B1696B1, 0x9BDC06A725C71235, 0xC19BF174CF692694,
     0xE49B69C19EF14AD2, 0xEFBE4786384F25E3, 0x0FC19DC68B8CD5B5, 0x240CA1CC77AC9C65,
     0x2DE92C6F592B0275, 0x4A7484AA6EA6E483, 0x5CB0A9DCBD41FBD4, 0x76F988DA831153B5,
     0x983E5152EE66DFAB, 0xA831C66D2DB43210, 0xB00327C898FB213F, 0xBF597FC7BEEF0EE4,
     0xC6E00BF33DA88FC2, 0xD5A79147930AA725, 0x06CA6351E003826F, 0x142929670A0E6E70,
     0x27B70A8546D22FFC, 0x2E1B21385C26C926, 0x4D2C6DFC5AC42AED, 0x53380D139D95B3DF,
     0x650A73548BAF63DE, 0x766A0ABB3C77B2A8, 0x81C2C92E47EDAEE6, 0x92722C851482353B,
     0xA2BFE8A14CF10364, 0xA81A664BBC423001, 0xC24B8B70D0F89791, 0xC76C51A30654BE30,
     0xD192E819D6EF5218, 0xD69906245565A910, 0xF40E35855771202A, 0x106AA07032BBD1B8,
     0x19A4C116B8D2D0C8, 0x1E376C085141AB53, 0x2748774CDF8EEB99, 0x34B0BCB5E19B48A8,
     0x391C0CB3C5C95A63, 0x4ED8AA4AE3418ACB, 0x5B9CCA4F7763E373, 0x682E6FF3D6B2B8A3,
     0x748F82EE5DEFB2FC, 0x78A5636F43172F60, 0x84C87814A1F0AB72, 0x8CC702081A6439EC,
     0x90BEFFFA23631E28, 0xA4506CEBDE82BDE9, 0xBEF9A3F7B2C67915, 0xC67178F2E372532B,
     0xCA273ECEEA26619C, 0xD186B8C721C0C207, 0xEADA7DD6CDE0EB1E, 0xF57D4F7FEE6ED178,
     0x06F067AA72176FBA, 0x0A637DC5A2C898A6, 0x113F9804BEF90DAE, 0x1B710B35131C471B,
     0x28DB77F523047D84, 0x32CAAB7B40C72493, 0x3C9EBE0A15C9BEBC, 0x431D67C49C100D4C,
     0x4CC5D4BECB3E42B6, 0x597F299CFC657E2A, 0x5FCB6FAB3AD6FAEC, 0x6C44198C4A475817]"

definition sha512_init :: "64 sha2_state" where
  "sha512_init =
    (0x6A09E667F3BCC908, 0xBB67AE8584CAA73B, 0x3C6EF372FE94F82B, 0xA54FF53A5F1D36F1,
     0x510E527FADE682D1, 0x9B05688C2B3E6C1F, 0x1F83D9ABFB41BD6B, 0x5BE0CD19137E2179)"

definition sha512_blocks :: "string \<Rightarrow> 64 word list list" where
  "sha512_blocks msg = chunks 16 (be_words64 (pad128 (map of_char msg)))"

definition sha512 :: "string \<Rightarrow> nat list" where
  "sha512 msg =
     sha2_out 8 (foldl (sha2_compress sha512_params sha512_K) sha512_init (sha512_blocks msg))"

subsection \<open>The module\<close>

text \<open>\<^verbatim>\<open>digest.hexdigest()\<close>: two lower-case hexadecimal digits for each byte.\<close>

definition hex_byte :: "nat \<Rightarrow> string" where
  "hex_byte b = [''0123456789abcdef'' ! (b div 16), ''0123456789abcdef'' ! (b mod 16)]"

definition hexdigest :: "nat list \<Rightarrow> string" where
  "hexdigest bs = concat (map hex_byte bs)"

text \<open>
  \<^verbatim>\<open>getattr(hashlib, name)\<close> for the three names that the constructor admits; another
  name is taken as an attribute that the module does not have.
\<close>

definition hashlib :: "string \<Rightarrow> (string \<Rightarrow> nat list) option" where
  "hashlib name =
     (if name = ''sha1'' then Some sha1
      else if name = ''sha256'' then Some sha256
      else if name = ''sha512'' then Some sha512
      else None)"

section \<open>OgoneSignature\<close>

record ogone =
  data :: dict
  hash_method :: string
  secret :: pyval
  encoding :: codec
  out :: bool

text \<open>
  \<^verbatim>\<open>__init__\<close>: the two assertions, then the fields. \<^verbatim>\<open>str(secret)\<close> is true when it
  is not the empty string.
\<close>

definition init :: "dict \<Rightarrow> string \<Rightarrow> pyval \<Rightarrow> codec \<Rightarrow> bool \<Rightarrow> error + ogone" where
  "init data' hash_method' secret' encoding' out' =
     (if hash_method' \<notin> set [''sha1'', ''sha256'', ''sha512''] then Inl AssertionError
      else if py_str secret' = [] then Inl AssertionError
      else Inr \<lparr>data = data', hash_method = hash_method', secret = secret',
                encoding = encoding', out = out'\<rparr>)"

definition SHA_IN_FILTER_WORDS :: "string list" where
  "SHA_IN_FILTER_WORDS =
    [
    ''ACCEPTANCE'', ''ACCEPTURL'', ''ADDMATCH'', ''ADDRMATCH'', ''AIAGIATA'', ''AIAIRNAME'',
     ''AIAIRTAX'', ''AIBOOKIND*XX*'', ''AICARRIER*XX*'', ''AICHDET'', ''AICLASS*XX*'',
     ''AICONJTI'', ''AIDEPTCODE'', ''AIDESTCITY*XX*'', ''AIDESTCITYL*XX*'',
     ''AIEXTRAPASNAME*XX*'', ''AIEYCD'', ''AIFLDATE*XX*'', ''AIFLNUM*XX*'', ''AIGLNUM'',
     ''AIINVOICE'', ''AIIRST'', ''AIORCITY*XX*'', ''AIORCITYL*XX*'', ''AIPASNAME'',
     ''AIPROJNUM'', ''AISTOPOV*XX*'', ''AITIDATE'', ''AITINUM'', ''AITINUML*XX*'', ''AITYPCH'',
     ''AIVATAMNT'', ''AIVATAPPL'', ''ALIAS'', ''ALIASOPERATION'', ''ALIASUSAGE'',
     ''ALLOWCORRECTION'', ''AMOUNT'', ''AMOUNT*XX*'', ''AMOUNTHTVA'', ''AMOUNTTVA'',
     ''BACKURL'', ''BATCHID'', ''BGCOLOR'', ''BLVERNUM'', ''BRAND'', ''BRANDVISUAL'',
     ''BUTTONBGCOLOR'', ''BUTTONTXTCOLOR'', ''CANCELURL'', ''CARDNO'', ''CATALOGURL'',
     ''CAVV_3D'', ''CAVVALGORITHM_3D'', ''CERTID'', ''CHECK_AAV'', ''CIVILITY'', ''CN'',
     ''COM'', ''COMPLUS'', ''COSTCENTER'', ''COSTCODE'', ''CREDITCODE'', ''CUID'',
     ''CURRENCY'', ''CVC'', ''CVCFLAG'', ''DATA'', ''DATATYPE'', ''DATEIN'', ''DATEOUT'',
     ''DECLINEURL'', ''DEVICE'', ''DISCOUNTRATE'', ''DISPLAYMODE'', ''ECI'', ''ECI_3D'',
     ''ECOM_BILLTO_POSTAL_CITY'', ''ECOM_BILLTO_POSTAL_COUNTRYCODE'',
     ''ECOM_BILLTO_POSTAL_NAME_FIRST'', ''ECOM_BILLTO_POSTAL_NAME_LAST'',
     ''ECOM_BILLTO_POSTAL_POSTALCODE'', ''ECOM_BILLTO_POSTAL_STREET_LINE1'',
     ''ECOM_BILLTO_POSTAL_STREET_LINE2'', ''ECOM_BILLTO_POSTAL_STREET_NUMBER'',
     ''ECOM_CONSUMERID'', ''ECOM_CONSUMER_GENDER'', ''ECOM_CONSUMEROGID'',
     ''ECOM_CONSUMERORDERID'', ''ECOM_CONSUMERUSERALIAS'', ''ECOM_CONSUMERUSERPWD'',
     ''ECOM_CONSUMERUSERID'', ''ECOM_PAYMENT_CARD_EXPDATE_MONTH'',
     ''ECOM_PAYMENT_CARD_EXPDATE_YEAR'', ''ECOM_PAYMENT_CARD_NAME'',
     ''ECOM_PAYMENT_CARD_VERIFICATION'', ''ECOM_SHIPTO_COMPANY'', ''ECOM_SHIPTO_DOB'',
     ''ECOM_SHIPTO_ONLINE_EMAIL'', ''ECOM_SHIPTO_POSTAL_CITY'',
     ''ECOM_SHIPTO_POSTAL_COUNTRYCODE'', ''ECOM_SHIPTO_POSTAL_NAME_FIRST'',
     ''ECOM_SHIPTO_POSTAL_NAME_LAST'', ''ECOM_SHIPTO_POSTAL_NAME_PREFIX'',
     ''ECOM_SHIPTO_POSTAL_POSTALCODE'', ''ECOM_SHIPTO_POSTAL_STREET_LINE1'',
     ''ECOM_SHIPTO_POSTAL_STREET_LINE2'', ''ECOM_SHIPTO_POSTAL_STREET_NUMBER'',
     ''ECOM_SHIPTO_TELECOM_FAX_NUMBER'', ''ECOM_SHIPTO_TELECOM_PHONE_NUMBER'',
     ''ECOM_SHIPTO_TVA'', ''ED'', ''EMAIL'', ''EXCEPTIONURL'', ''EXCLPMLIST'',
     ''EXECUTIONDATE*XX*'', ''FACEXCL*XX*'', ''FACTOTAL*XX*'', ''FIRSTCALL'', ''FLAG3D'',
     ''FONTTYPE'', ''FORCECODE1'', ''FORCECODE2'', ''FORCECODEHASH'', ''FORCEPROCESS'',
     ''FORCETP'', ''GENERIC_BL'', ''GIROPAY_ACCOUNT_NUMBER'', ''GIROPAY_BLZ'',
     ''GIROPAY_OWNER_NAME'', ''GLOBORDERID'', ''GUID'', ''HDFONTTYPE'', ''HDTBLBGCOLOR'',
     ''HDTBLTXTCOLOR'', ''HEIGHTFRAME'', ''HOMEURL'', ''HTTP_ACCEPT'', ''HTTP_USER_AGENT'',
     ''INCLUDE_BIN'', ''INCLUDE_COUNTRIES'', ''INVDATE'', ''INVDISCOUNT'', ''INVLEVEL'',
     ''INVORDERID'', ''ISSUERID'', ''IST_MOBILE'', ''ITEM_COUNT'', ''ITEMATTRIBUTES*XX*'',
     ''ITEMCATEGORY*XX*'', ''ITEMCOMMENTS*XX*'', ''ITEMDESC*XX*'', ''ITEMDISCOUNT*XX*'',
     ''ITEMID*XX*'', ''ITEMNAME*XX*'', ''ITEMPRICE*XX*'', ''ITEMQUANT*XX*'',
     ''ITEMQUANTORIG*XX*'', ''ITEMUNITOFMEASURE*XX*'', ''ITEMVAT*XX*'', ''ITEMVATCODE*XX*'',
     ''ITEMWEIGHT*XX*'', ''LANGUAGE'', ''LEVEL1AUTHCPC'', ''LIDEXCL*XX*'',
     ''LIMITCLIENTSCRIPTUSAGE'', ''LINE_REF'', ''LINE_REF1'', ''LINE_REF2'', ''LINE_REF3'',
     ''LINE_REF4'', ''LINE_REF5'', ''LINE_REF6'', ''LIST_BIN'', ''LIST_COUNTRIES'', ''LOGO'',
     ''MAXITEMQUANT*XX*'', ''MERCHANTID'', ''MODE'', ''MTIME'', ''MVER'', ''NETAMOUNT'',
     ''OPERATION'', ''ORDERID'', ''ORDERSHIPCOST'', ''ORDERSHIPTAX'', ''ORDERSHIPTAXCODE'',
     ''ORIG'', ''OR_INVORDERID'', ''OR_ORDERID'', ''OWNERADDRESS'', ''OWNERADDRESS2'',
     ''OWNERCTY'', ''OWNERTELNO'', ''OWNERTOWN'', ''OWNERZIP'', ''PAIDAMOUNT'', ''PARAMPLUS'',
     ''PARAMVAR'', ''PAYID'', ''PAYMETHOD'', ''PM'', ''PMLIST'', ''PMLISTPMLISTTYPE'',
     ''PMLISTTYPE'', ''PMLISTTYPEPMLIST'', ''PMTYPE'', ''POPUP'', ''POST'', ''PSPID'',
     ''PSWD'', ''REF'', ''REFER'', ''REFID'', ''REFKIND'', ''REF_CUSTOMERID'',
     ''REF_CUSTOMERREF'', ''REGISTRED'', ''REMOTE_ADDR'', ''REQGENFIELDS'', ''RTIMEOUT'',
     ''RTIMEOUTREQUESTEDTIMEOUT'', ''SCORINGCLIENT'', ''SETT_BATCH'', ''SID'', ''STATUS_3D'',
     ''SUBSCRIPTION_ID'', ''SUB_AM'', ''SUB_AMOUNT'', ''SUB_COM'', ''SUB_COMMENT'',
     ''SUB_CUR'', ''SUB_ENDDATE'', ''SUB_ORDERID'', ''SUB_PERIOD_MOMENT'',
     ''SUB_PERIOD_MOMENT_M'', ''SUB_PERIOD_MOMENT_WW'', ''SUB_PERIOD_NUMBER'',
     ''SUB_PERIOD_NUMBER_D'', ''SUB_PERIOD_NUMBER_M'', ''SUB_PERIOD_NUMBER_WW'',
     ''SUB_PERIOD_UNIT'', ''SUB_STARTDATE'', ''SUB_STATUS'', ''TAAL'', ''TAXINCLUDED*XX*'',
     ''TBLBGCOLOR'', ''TBLTXTCOLOR'', ''TID'', ''TITLE'', ''TOTALAMOUNT'', ''TP'', ''TRACK2'',
     ''TXTBADDR2'', ''TXTCOLOR'', ''TXTOKEN'', ''TXTOKENTXTOKENPAYPAL'', ''TYPE_COUNTRY'',
     ''UCAF_AUTHENTICATION_DATA'', ''UCAF_PAYMENT_CARD_CVC2'',
     ''UCAF_PAYMENT_CARD_EXPDATE_MONTH'', ''UCAF_PAYMENT_CARD_EXPDATE_YEAR'',
     ''UCAF_PAYMENT_CARD_NUMBER'', ''USERID'', ''USERTYPE'', ''VERSION'', ''WBTU_MSISDN'',
     ''WBTU_ORDERID'', ''WEIGHTUNIT'', ''WIN3DS'', ''WITHROOT'']"

definition SHA_OUT_FILTER_WORDS :: "string list" where
  "SHA_OUT_FILTER_WORDS =
    [
    ''AAVADDRESS'', ''AAVCHECK'', ''AAVZIP'', ''ACCEPTANCE'', ''ALIAS'', ''AMOUNT'', ''BIN'',
     ''BRAND'', ''CARDNO'', ''CCCTY'', ''CN'', ''COMPLUS'', ''CREATION_STATUS'', ''CURRENCY'',
     ''CVCCHECK'', ''DCC_COMMPERCENTAGE'', ''DCC_CONVAMOUNT'', ''DCC_CONVCCY'',
     ''DCC_EXCHRATE'', ''DCC_EXCHRATESOURCE'', ''DCC_EXCHRATETS'', ''DCC_INDICATOR'',
     ''DCC_MARGINPERCENTAGE'', ''DCC_VALIDHOURS'', ''DIGESTCARDNO'', ''ECI'', ''ED'',
     ''ENCCARDNO'', ''IP'', ''IPCTY'', ''NBREMAILUSAGE'', ''NBRIPUSAGE'', ''NBRIPUSAGE_ALLTX'',
     ''NBRUSAGE'', ''NCERROR'', ''ORDERID'', ''PAYID'', ''PM'', ''SCO_CATEGORY'', ''SCORING'',
     ''STATUS'', ''SUBBRAND'', ''SUBSCRIPTION_ID'', ''TRXDATE'', ''VC'']"

text \<open>
  \<^verbatim>\<open>_filter_data\<close>, with the two word lists as arguments; \<open>filter_data\<close> is the method,
  on the lists of the source. The flag \<open>valid\<close> is assigned in the order of the source.
\<close>

definition filter_data_with ::
  "string list \<Rightarrow> string list \<Rightarrow> ogone \<Rightarrow> string \<Rightarrow> pyval \<Rightarrow> bool" where
  "filter_data_with in_words out_words self k v =
     (let valid = True;
          valid = (if v = PStr [] \<or> v = PNone then False else valid);
          valid = (if \<not> out self \<and> upper k \<notin> set in_words then False else valid);
          valid = (if out self \<and> upper k \<notin> set out_words then False else valid);
          valid = (if k = ''SHASIGN'' then False else valid)
      in valid)"

definition filter_data :: "ogone \<Rightarrow> string \<Rightarrow> pyval \<Rightarrow> bool" where
  "filter_data = filter_data_with SHA_IN_FILTER_WORDS SHA_OUT_FILTER_WORDS"

text \<open>
  \<^verbatim>\<open>_sort_data\<close>: the pairs that pass the filter, under their upper-case keys, sorted as
  tuples (by key, then by value). The sort of Python is stable: pairs that compare equal
  stay in the order of the iteration.
\<close>

definition sort_data :: "ogone \<Rightarrow> dict \<Rightarrow> (string \<times> pyval) list" where
  "sort_data self d =
     sort_key tuple_rank [(upper k, v). (k, v) \<leftarrow> d, filter_data self (upper k) v]"

text \<open>
  The sort tells the entries of a mapping apart when two entries with the same upper-case
  key and values of the same rank have the same value. Then the sorted list does not depend
  on the order of the iteration.
\<close>

definition told_apart :: "dict \<Rightarrow> bool" where
  "told_apart d =
     (\<forall>(k1, v1) \<in> set d. \<forall>(k2, v2) \<in> set d.
        upper k1 = upper k2 \<longrightarrow> rank_of v1 = rank_of v2 \<longrightarrow> v1 = v2)"

text \<open>
  \<^verbatim>\<open>_merge_data\<close>: \<^verbatim>\<open>self.secret.join\<close> exists when the secret is a string.
\<close>

definition merge_data :: "ogone \<Rightarrow> (string \<times> pyval) list \<Rightarrow> error + string" where
  "merge_data self d =
     (let pairs = [k @ ''='' @ py_str v. (k, v) \<leftarrow> d]
      in case secret self of
           PStr s \<Rightarrow> encoding self (join s pairs @ s)
         | _ \<Rightarrow> Inl AttributeError)"

definition sign_string :: "ogone \<Rightarrow> string \<Rightarrow> error + string" where
  "sign_string self pre_sign_string =
     (case hashlib (hash_method self) of
        None \<Rightarrow> Inl AttributeError
      | Some hashmethod \<Rightarrow> Inr (upper (hexdigest (hashmethod pre_sign_string))))"

text \<open>\<^verbatim>\<open>signature\<close>, without the log lines.\<close>

definition signature :: "ogone \<Rightarrow> error + string" where
  "signature self =
     (let sorted_data = sort_data self (data self)
      in case merge_data self sorted_data of
           Inl e \<Rightarrow> Inl e
         | Inr pre_sign_string \<Rightarrow> sign_string self pre_sign_string)"

text \<open>The expression \<^verbatim>\<open>OgoneSignature(data, hash_method, secret, encoding, out).signature()\<close>.\<close>

definition new_signature :: "dict \<Rightarrow> string \<Rightarrow> pyval \<Rightarrow> codec \<Rightarrow> bool \<Rightarrow> error + string" where
  "new_signature data' hash_method' secret' encoding' out' =
     (case init data' hash_method' secret' encoding' out' of
        Inl e \<Rightarrow> Inl e
      | Inr self \<Rightarrow> signature self)"

section \<open>Properties of the signer\<close>

lemma upper_char_idem: "upper_char (upper_char c) = upper_char c"
  by (simp add: upper_char_def)

lemma upper_idem: "upper (upper s) = upper s"
  by (simp add: upper_def upper_char_idem)

lemma sort_data_map_filter:
  "sort_data self d =
     sort_key tuple_rank
       (map (\<lambda>(k, v). (upper k, v)) (filter (\<lambda>(k, v). filter_data self (upper k) v) d))"
proof -
  have "[(upper k, v). (k, v) \<leftarrow> d, P k v] =
        map (\<lambda>(k, v). (upper k, v)) (filter (\<lambda>(k, v). P k v) d)" for P
    by (induction d) auto
  then show ?thesis
    by (simp add: sort_data_def)
qed

lemma set_sort_data:
  "set (sort_data self d) = {(upper k, v) | k v. (k, v) \<in> set d \<and> filter_data self (upper k) v}"
  by (auto simp: sort_data_map_filter)

lemma mset_sort_data:
  "mset (sort_data self d) =
     image_mset (\<lambda>(k, v). (upper k, v)) (filter_mset (\<lambda>(k, v). filter_data self (upper k) v) (mset d))"
  by (simp add: sort_data_map_filter)

lemma sort_key_cong_mset:
  fixes f :: "'a \<Rightarrow> 'b::linorder"
  assumes "mset xs = mset ys" and "inj_on f (set xs)"
  shows "sort_key f xs = sort_key f ys"
proof (rule properties_for_sort_key)
  show "mset (sort_key f ys) = mset xs"
    using assms(1) by simp
  show "sorted (map f (sort_key f ys))"
    by simp
  fix k
  assume "k \<in> set (sort_key f ys)"
  then have k: "k \<in> set xs"
    using mset_eq_setD [OF assms(1)] by simp
  have eq: "filter (\<lambda>x. f k = f x) zs = filter ((=) k) zs" if "set zs = set xs" for zs
    using that k assms(2) by (auto intro!: filter_cong dest: inj_onD)
  have "filter (\<lambda>x. f k = f x) (sort_key f ys) = filter ((=) k) (sort_key f ys)"
    using mset_eq_setD [OF assms(1)] by (intro eq) simp
  also have "\<dots> = replicate (count (mset (sort_key f ys)) k) k"
    by (rule replicate_count_mset_eq_filter_eq [symmetric])
  also have "\<dots> = replicate (count (mset xs) k) k"
    using assms(1) by simp
  also have "\<dots> = filter ((=) k) xs"
    by (rule replicate_count_mset_eq_filter_eq)
  also have "\<dots> = filter (\<lambda>x. f k = f x) xs"
    by (rule eq [symmetric]) simp
  finally show "filter (\<lambda>x. f k = f x) (sort_key f ys) = filter (\<lambda>x. f k = f x) xs" .
qed

lemma told_apart_inj_on:
  assumes "told_apart d"
  shows "inj_on tuple_rank
     (set (map (\<lambda>(k, v). (upper k, v)) (filter (\<lambda>(k, v). filter_data self (upper k) v) d)))"
  using assms by (fastforce simp: told_apart_def inj_on_def)

lemma told_apart_cong_mset: "mset d1 = mset d2 \<Longrightarrow> told_apart d1 = told_apart d2"
  using mset_eq_setD [of d1 d2] by (simp add: told_apart_def)

lemma distinct_upper_told_apart: "distinct (map (\<lambda>(k, v). upper k) d) \<Longrightarrow> told_apart d"
proof -
  assume "distinct (map (\<lambda>(k, v). upper k) d)"
  then have "inj_on (\<lambda>(k, v). upper k) (set d)"
    by (simp add: distinct_map)
  then show ?thesis
    by (fastforce simp: told_apart_def inj_on_def)
qed

lemma sort_data_cong_mset:
  assumes "mset d1 = mset d2" and "told_apart d1"
  shows "sort_data self d1 = sort_data self d2"
  unfolding sort_data_map_filter
proof (rule sort_key_cong_mset)
  show "mset (map (\<lambda>(k, v). (upper k, v)) (filter (\<lambda>(k, v). filter_data self (upper k) v) d1)) =
        mset (map (\<lambda>(k, v). (upper k, v)) (filter (\<lambda>(k, v). filter_data self (upper k) v) d2))"
    using assms(1) by simp
  show "inj_on tuple_rank
     (set (map (\<lambda>(k, v). (upper k, v)) (filter (\<lambda>(k, v). filter_data self (upper k) v) d1)))"
    using assms(2) by (rule told_apart_inj_on)
qed

lemma filter_data_value: "filter_data self k v \<Longrightarrow> v \<noteq> PStr [] \<and> v \<noteq> PNone"
  by (auto simp: filter_data_def filter_data_with_def split: if_splits)

lemma filter_data_words:
  "filter_data self k v \<Longrightarrow>
     upper k \<in> set (if out self then SHA_OUT_FILTER_WORDS else SHA_IN_FILTER_WORDS)"
  by (auto simp: filter_data_def filter_data_with_def split: if_splits)

lemma filter_data_with_SHASIGN: "\<not> filter_data_with in_words out_words self ''SHASIGN'' v"
  by (simp add: filter_data_with_def)

lemma filter_data_SHASIGN: "\<not> filter_data self ''SHASIGN'' v"
  by (simp add: filter_data_def filter_data_with_SHASIGN)

lemma sort_data_filter:
  assumes "\<And>k v. (k, v) \<in> set d \<Longrightarrow> filter_data self (upper k) v \<Longrightarrow> P (k, v)"
  shows "sort_data self (filter P d) = sort_data self d"
proof -
  have "filter (\<lambda>(k, v). filter_data self (upper k) v) (filter P d) =
        filter (\<lambda>(k, v). filter_data self (upper k) v) d"
    using assms by (auto intro!: filter_cong)
  then show ?thesis
    by (simp add: sort_data_map_filter)
qed

lemma sort_data_excluded:
  assumes "\<not> filter_data self (upper k) v"
  shows "(upper k, v) \<notin> set (sort_data self d)"
    and "sort_data self (removeAll (k, v) d) = sort_data self d"
proof -
  show "(upper k, v) \<notin> set (sort_data self d)"
    using assms by (auto simp: set_sort_data)
  have "sort_data self (filter (\<lambda>e. e \<noteq> (k, v)) d) = sort_data self d"
    using assms by (intro sort_data_filter) auto
  moreover have "removeAll (k, v) d = filter (\<lambda>e. e \<noteq> (k, v)) d"
    by (induction d) auto
  ultimately show "sort_data self (removeAll (k, v) d) = sort_data self d"
    by simp
qed

lemma sort_data_keys:
  "fst ` set (sort_data self d) \<subseteq>
     set (if out self then SHA_OUT_FILTER_WORDS else SHA_IN_FILTER_WORDS) - {''SHASIGN''}"
proof
  fix k' assume "k' \<in> fst ` set (sort_data self d)"
  then obtain k v where kv: "k' = upper k" "filter_data self (upper k) v"
    by (auto simp: set_sort_data)
  from kv(2) have "upper (upper k) \<in> set (if out self then SHA_OUT_FILTER_WORDS else SHA_IN_FILTER_WORDS)"
    by (rule filter_data_words)
  moreover from kv(2) have "upper k \<noteq> ''SHASIGN''"
    using filter_data_SHASIGN by auto
  ultimately show "k' \<in> set (if out self then SHA_OUT_FILTER_WORDS else SHA_IN_FILTER_WORDS) - {''SHASIGN''}"
    using kv(1) by (simp add: upper_idem)
qed

lemma not_filter_data_words:
  "upper k \<notin> set (if out self then SHA_OUT_FILTER_WORDS else SHA_IN_FILTER_WORDS) \<Longrightarrow>
     \<not> filter_data self (upper k) v"
proof
  assume notin: "upper k \<notin> set (if out self then SHA_OUT_FILTER_WORDS else SHA_IN_FILTER_WORDS)"
  assume "filter_data self (upper k) v"
  then have "upper (upper k) \<in> set (if out self then SHA_OUT_FILTER_WORDS else SHA_IN_FILTER_WORDS)"
    by (rule filter_data_words)
  with notin show False
    unfolding upper_idem by contradiction
qed

lemma upper_SHASIGN: "upper ''SHASIGN'' = ''SHASIGN''"
  by (simp add: upper_def upper_char_def)

lemma merge_data_update_data: "merge_data (self\<lparr>data := d\<rparr>) xs = merge_data self xs"
  by (simp add: merge_data_def cong: pyval.case_cong)

lemma sign_string_update_data: "sign_string (self\<lparr>data := d\<rparr>) x = sign_string self x"
  by (simp add: sign_string_def)

lemma sort_data_update_data: "sort_data (self\<lparr>data := d\<rparr>) xs = sort_data self xs"
  by (simp add: sort_data_def filter_data_def filter_data_with_def)

lemma signature_cong_mset:
  "mset (data self) = mset d \<Longrightarrow> told_apart (data self) \<Longrightarrow>
     signature (self\<lparr>data := d\<rparr>) = signature self"
proof -
  assume "mset (data self) = mset d" and "told_apart (data self)"
  then have "sort_data self (data self) = sort_data self d"
    by (rule sort_data_cong_mset)
  then show ?thesis
    by (simp add: signature_def merge_data_update_data sign_string_update_data
        sort_data_update_data cong: sum.case_cong)
qed

lemma new_signature_cong_mset:
  assumes "mset d1 = mset d2" and "told_apart d1"
  shows "new_signature d1 hm s enc b = new_signature d2 hm s enc b"
proof (cases "init d1 hm s enc b")
  case (Inl e)
  then show ?thesis
    by (auto simp: new_signature_def init_def split: if_splits)
next
  case (Inr self)
  then have self: "self = \<lparr>data = d1, hash_method = hm, secret = s, encoding = enc, out = b\<rparr>"
    and init2: "init d2 hm s enc b = Inr (self\<lparr>data := d2\<rparr>)"
    by (auto simp: init_def split: if_splits)
  have "mset (data self) = mset d2" and "told_apart (data self)"
    using assms self by simp_all
  then show ?thesis
    using Inr init2 by (simp add: new_signature_def signature_cong_mset)
qed

lemma init_Inl_iff:
  "(\<exists>e. init d hm s enc b = Inl e) \<longleftrightarrow>
     hm \<notin> {''sha1'', ''sha256'', ''sha512''} \<or> py_str s = []"
  by (auto simp: init_def)

lemma upper_Amount:
  "upper ''Amount'' = ''AMOUNT''"
  "upper ''AMOUNT'' = ''AMOUNT''"
  by (simp_all add: upper_def upper_char_def)

text \<open>A secret that is not a string makes \<^verbatim>\<open>_merge_data\<close>, and so \<^verbatim>\<open>signature\<close>, fail.\<close>

lemma signature_None_secret: "secret self = PNone \<Longrightarrow> signature self = Inl AttributeError"
  by (simp add: signature_def merge_data_def)

section \<open>The hash functions\<close>

subsection \<open>Rotations\<close>

text \<open>The two rotations are those of the word library.\<close>

lemma rotr_word_rotr:
  fixes x :: "'a::len word"
  assumes "n < LENGTH('a)"
  shows "rotr n x = word_rotr n x"
proof (rule bit_word_eqI)
  fix m
  assume m: "m < LENGTH('a)"
  show "bit (rotr n x) m = bit (word_rotr n x) m"
  proof (cases "m + n < LENGTH('a)")
    case True
    then show ?thesis
      using m by (auto simp: rotr_def bit_or_iff bit_drop_bit_eq bit_push_bit_iff
          bit_word_rotr_iff ac_simps)
  next
    case False
    then have "(m + n) mod LENGTH('a) = m + n - LENGTH('a)"
      using m assms by (simp add: le_mod_geq)
    moreover have "\<not> bit x (m + n)"
      using False by (auto dest: bit_imp_le_length)
    moreover have "m - (LENGTH('a) - n) = m + n - LENGTH('a)" "LENGTH('a) - n \<le> m"
      using False m assms by simp_all
    ultimately show ?thesis
      using m by (simp add: rotr_def bit_or_iff bit_drop_bit_eq bit_push_bit_iff
          bit_word_rotr_iff ac_simps)
  qed
qed

lemma rotl_word_rotl:
  fixes x :: "'a::len word"
  assumes "n < LENGTH('a)"
  shows "rotl n x = word_rotl n x"
proof (rule bit_word_eqI)
  fix m
  assume m: "m < LENGTH('a)"
  show "bit (rotl n x) m = bit (word_rotl n x) m"
  proof (cases "n \<le> m")
    case True
    then have "(m + (LENGTH('a) - n mod LENGTH('a))) mod LENGTH('a) = m - n"
      using m assms by (simp add: le_mod_geq)
    moreover have "\<not> bit x (LENGTH('a) - n + m)"
      using True assms by (auto dest: bit_imp_le_length)
    ultimately show ?thesis
      using m True by (simp add: rotl_def bit_or_iff bit_drop_bit_eq bit_push_bit_iff
          bit_word_rotl_iff ac_simps)
  next
    case False
    then have "(m + (LENGTH('a) - n mod LENGTH('a))) mod LENGTH('a) = m + (LENGTH('a) - n)"
      using m assms by simp
    then show ?thesis
      using m False by (simp add: rotl_def bit_or_iff bit_drop_bit_eq bit_push_bit_iff
          bit_word_rotl_iff ac_simps)
  qed
qed

subsection \<open>Rules for evaluation\<close>

text \<open>
  The digests below are computed by rewriting. A sum of words is brought back below the
  word size after every step, and a word is shifted right through its value as a natural
  number; the window of the message schedule moves by one rewrite step per round.
\<close>

lemma unat_numeral_trunc:
  "unat (numeral k :: 'a::len word) =
     (if (numeral k :: nat) < 2 ^ LENGTH('a) then numeral k
      else numeral k - push_bit LENGTH('a) (drop_bit LENGTH('a) (numeral k :: nat)))"
  by (simp add: take_bit_eq_mod push_bit_eq_mult drop_bit_eq_div minus_div_mult_eq_mod)

lemma unat_numeral32:
  "unat (numeral k :: 32 word) =
     (if (numeral k :: nat) < 4294967296 then numeral k
      else numeral k - push_bit 32 (drop_bit 32 (numeral k :: nat)))"
  using unat_numeral_trunc [where 'a = 32] by simp

lemma unat_numeral64:
  "unat (numeral k :: 64 word) =
     (if (numeral k :: nat) < 18446744073709551616 then numeral k
      else numeral k - push_bit 64 (drop_bit 64 (numeral k :: nat)))"
  using unat_numeral_trunc [where 'a = 64] by simp

lemma drop_bit_word_unat:
  "drop_bit n (numeral k :: 'a::len word) = word_of_nat (drop_bit n (unat (numeral k :: 'a word)))"
  by (metis of_nat_unat ucast_id unat_drop_bit_eq)

lemmas word_eval = unat_numeral32 unat_numeral64 drop_bit_word_unat
lemmas word_eval_del = unsigned_numeral unat_bintrunc drop_bit_word_numeral

lemma sha1_step_eval:
  "sha1_step t (a, b, c, d, e) w =
     (word_of_nat (unat (rotl 5 a + sha1_f t b c d + e + sha1_k t + w)), a,
      word_of_nat (unat (rotl 30 b)), c, d)"
  by (simp only: sha1_step.simps of_nat_unat ucast_id)

lemma sha1_rounds_eval:
  "sha1_rounds t [w0, w1, w2, w3, w4, w5, w6, w7, w8, w9, w10, w11, w12, w13, w14, w15] st =
     (if t < 80
      then sha1_rounds (t + 1)
             [w1, w2, w3, w4, w5, w6, w7, w8, w9, w10, w11, w12, w13, w14, w15,
              word_of_nat (unat (rotl 1 (w13 XOR w8 XOR w2 XOR w0)))]
             (sha1_step t st w0)
      else st)"
  by (subst sha1_rounds.simps) (simp add: sha1_next_def)

lemmas sha1_eval =
  sha1_compress_def sha1_rounds_eval sha1_step_eval sha1_f_def sha1_k_def rotl_def
  Ch_def Maj_def Parity_def


lemma sha2_T1_eval:
  "sha2_T1 (Sigma0, Sigma1, sigma0, sigma1) k (a, b, c, d, e, f, g, h) w =
     word_of_nat (unat (h + Sigma1 e + Ch e f g + k + w))"
  by (simp only: sha2_T1.simps of_nat_unat ucast_id)

lemma sha2_T2_eval:
  "sha2_T2 (Sigma0, Sigma1, sigma0, sigma1) (a, b, c, d, e, f, g, h) =
     word_of_nat (unat (Sigma0 a + Maj a b c))"
  by (simp only: sha2_T2.simps of_nat_unat ucast_id)

lemma sha2_update_eval:
  "sha2_update T1 T2 (a, b, c, d, e, f, g, h) =
     (word_of_nat (unat (T1 + T2)), a, b, c, word_of_nat (unat (d + T1)), e, f, g)"
  by (simp only: sha2_update.simps of_nat_unat ucast_id)

lemma sha2_rounds_eval:
  "sha2_rounds (Sigma0, Sigma1, sigma0, sigma1) (k # ks)
      [w0, w1, w2, w3, w4, w5, w6, w7, w8, w9, w10, w11, w12, w13, w14, w15] st =
   sha2_rounds (Sigma0, Sigma1, sigma0, sigma1) ks
      [w1, w2, w3, w4, w5, w6, w7, w8, w9, w10, w11, w12, w13, w14, w15,
       word_of_nat (unat (sigma1 w14 + w9 + sigma0 w1 + w0))]
      (sha2_step (Sigma0, Sigma1, sigma0, sigma1) k st w0)"
  by simp

lemmas sha2_eval =
  sha2_compress_def sha2_rounds_eval sha2_step_def sha2_T1_eval sha2_T2_eval sha2_update_eval
  rotr_def Ch_def Maj_def


lemma be_bytes_numeral: "be_bytes (numeral k) n = be_bytes (pred_numeral k) (n div 256) @ [n mod 256]"
proof -
  have "numeral k = Suc (pred_numeral k)"
    by (rule numeral_eq_Suc)
  then show ?thesis
    by (simp only: be_bytes.simps)
qed

lemma replicate_eval: "replicate (numeral k) x = x # replicate (pred_numeral k) x"
  by (simp add: numeral_eq_Suc)




lemma length_eval:
  "length (x # y # z # w # xs) = length (z # w # xs) + 2"
  "length [x, y, z] = 3"
  "length [x, y] = 2"
  "length [x] = 1"
  by simp_all



lemmas bytes_eval = be_bytes_numeral replicate_eval length_eval

subsection \<open>Digests\<close>

text \<open>
  For every message: its blocks after padding, the compression of each block, and the
  digest. The message \<^verbatim>\<open>abc\<close> is the test vector of the standard, for SHA-1 and
  SHA-256; the other messages are the strings that the examples sign.
\<close>

lemma sha1_blocks_abc:
  "sha1_blocks ''abc'' =
     [[0x61626380, 0, 0, 0, 0, 0, 0, 0, 0, 0, 0, 0, 0, 0, 0, 0x18]]"
  by (simp add: sha1_blocks_def pad64_def bytes_eval chunks.simps del: list.size(4))

lemma sha1_compress_abc_1:
  "sha1_compress (0x67452301, 0xEFCDAB89, 0x98BADCFE, 0x10325476, 0xC3D2E1F0)
     [0x61626380, 0, 0, 0, 0, 0, 0, 0, 0, 0, 0, 0, 0, 0, 0, 0x18] =
   (0xA9993E36, 0x4706816A, 0xBA3E2571, 0x7850C26C, 0x9CD0D89D)"
  by (simp add: sha1_eval word_eval del: sha1_step.simps word_eval_del)

lemma sha1_abc:
  "sha1 ''abc'' =
    [169, 153, 62, 54, 71, 6, 129, 106, 186, 62, 37, 113, 120, 80, 194, 108, 156, 208, 216, 157]"
  by (simp add: sha1_def sha1_init_def sha1_blocks_abc bytes_eval
      sha1_compress_abc_1)


lemma sha256_blocks_abc:
  "sha256_blocks ''abc'' =
     [[0x61626380, 0, 0, 0, 0, 0, 0, 0, 0, 0, 0, 0, 0, 0, 0, 0x18]]"
  by (simp add: sha256_blocks_def pad64_def bytes_eval chunks.simps del: list.size(4))

lemma sha256_compress_abc_1:
  "sha2_compress sha256_params sha256_K
     (0x6A09E667, 0xBB67AE85, 0x3C6EF372, 0xA54FF53A, 0x510E527F, 0x9B05688C, 0x1F83D9AB,
     0x5BE0CD19)
     [0x61626380, 0, 0, 0, 0, 0, 0, 0, 0, 0, 0, 0, 0, 0, 0, 0x18] =
   (0xBA7816BF, 0x8F01CFEA, 0x414140DE, 0x5DAE2223, 0xB00361A3, 0x96177A9C, 0xB410FF61,
    0xF20015AD)"
  by (simp add: sha2_eval word_eval sha256_params_def sha256_K_def
      del: sha2_T1.simps sha2_T2.simps sha2_update.simps sha2_rounds.simps(2) word_eval_del)

lemma sha256_abc:
  "sha256 ''abc'' =
    [186, 120, 22, 191, 143, 1, 207, 234, 65, 65, 64, 222, 93, 174, 34, 35, 176, 3, 97, 163,
     150, 23, 122, 156, 180, 16, 255, 97, 242, 0, 21, 173]"
  by (simp add: sha256_def sha256_init_def sha256_blocks_abc bytes_eval
      sha256_compress_abc_1)


lemma sha1_blocks_shain:
  "sha1_blocks ''AMOUNT=1500Mysecretsig1875!?CURRENCY=EURMysecretsig1875!?OPERATION=RESMysecretsig1875!?ORDERID=1234Mysecretsig1875!?PSPID=MyPSPIDMysecretsig1875!?'' =
     [[0x414D4F55, 0x4E543D31, 0x3530304D, 0x79736563, 0x72657473, 0x69673138, 0x3735213F,
       0x43555252, 0x454E4359, 0x3D455552, 0x4D797365, 0x63726574, 0x73696731, 0x38373521,
       0x3F4F5045, 0x52415449],
      [0x4F4E3D52, 0x45534D79, 0x73656372, 0x65747369, 0x67313837, 0x35213F4F, 0x52444552,
       0x49443D31, 0x3233344D, 0x79736563, 0x72657473, 0x69673138, 0x3735213F, 0x50535049,
       0x443D4D79, 0x50535049],
      [0x444D7973, 0x65637265, 0x74736967, 0x31383735, 0x213F8000, 0, 0, 0, 0, 0, 0, 0, 0, 0,
       0, 0x490]]"
  by (simp add: sha1_blocks_def pad64_def bytes_eval chunks.simps del: list.size(4))

lemma sha1_compress_shain_1:
  "sha1_compress (0x67452301, 0xEFCDAB89, 0x98BADCFE, 0x10325476, 0xC3D2E1F0)
     [0x414D4F55, 0x4E543D31, 0x3530304D, 0x79736563, 0x72657473, 0x69673138, 0x3735213F,
      0x43555252, 0x454E4359, 0x3D455552, 0x4D797365, 0x63726574, 0x73696731, 0x38373521,
      0x3F4F5045, 0x52415449] =
   (0x150F103C, 0x22BC520B, 0x2206463C, 0x6B94249E, 0x40BAEDBF)"
  by (simp add: sha1_eval word_eval del: sha1_step.simps word_eval_del)

lemma sha1_compress_shain_2:
  "sha1_compress (0x150F103C, 0x22BC520B, 0x2206463C, 0x6B94249E, 0x40BAEDBF)
     [0x4F4E3D52, 0x45534D79, 0x73656372, 0x65747369, 0x67313837, 0x35213F4F, 0x52444552,
      0x49443D31, 0x3233344D, 0x79736563, 0x72657473, 0x69673138, 0x3735213F, 0x50535049,
      0x443D4D79, 0x50535049] =
   (0x157C3060, 0x7D471DEE, 0x614E8B1, 0x27B8A832, 0x96888557)"
  by (simp add: sha1_eval word_eval del: sha1_step.simps word_eval_del)

lemma sha1_compress_shain_3:
  "sha1_compress (0x157C3060, 0x7D471DEE, 0x614E8B1, 0x27B8A832, 0x96888557)
     [0x444D7973, 0x65637265, 0x74736967, 0x31383735, 0x213F8000, 0, 0, 0, 0, 0, 0, 0, 0, 0, 0,
      0x490] =
   (0xEB52902B, 0xCC4B50DC, 0x1250E5A7, 0xC1068ECF, 0x97751256)"
  by (simp add: sha1_eval word_eval del: sha1_step.simps word_eval_del)

lemma sha1_shain:
  "sha1 ''AMOUNT=1500Mysecretsig1875!?CURRENCY=EURMysecretsig1875!?OPERATION=RESMysecretsig1875!?ORDERID=1234Mysecretsig1875!?PSPID=MyPSPIDMysecretsig1875!?'' =
    [235, 82, 144, 43, 204, 75, 80, 220, 18, 80, 229, 167, 193, 6, 142, 207, 151, 117, 18, 86]"
  by (simp add: sha1_def sha1_init_def sha1_blocks_shain bytes_eval
      sha1_compress_shain_1 sha1_compress_shain_2 sha1_compress_shain_3)


lemma sha1_blocks_shaout:
  "sha1_blocks ''ACCEPTANCE=1234Mysecretsig1875!?AMOUNT=15Mysecretsig1875!?BRAND=VISAMysecretsig1875!?CARDNO=xxxxxxxxxxxx1111Mysecretsig1875!?CURRENCY=EURMysecretsig1875!?NCERROR=0Mysecretsig1875!?ORDERID=12Mysecretsig1875!?PAYID=32100123Mysecretsig1875!?PM=CreditCardMysecretsig1875!?STATUS=9Mysecretsig1875!?'' =
     [[0x41434345, 0x5054414E, 0x43453D31, 0x3233344D, 0x79736563, 0x72657473, 0x69673138,
       0x3735213F, 0x414D4F55, 0x4E543D31, 0x354D7973, 0x65637265, 0x74736967, 0x31383735,
       0x213F4252, 0x414E443D],
      [0x56495341, 0x4D797365, 0x63726574, 0x73696731, 0x38373521, 0x3F434152, 0x444E4F3D,
       0x78787878, 0x78787878, 0x78787878, 0x31313131, 0x4D797365, 0x63726574, 0x73696731,
       0x38373521, 0x3F435552],
      [0x52454E43, 0x593D4555, 0x524D7973, 0x65637265, 0x74736967, 0x31383735, 0x213F4E43,
       0x4552524F, 0x523D304D, 0x79736563, 0x72657473, 0x69673138, 0x3735213F, 0x4F524445,
       0x5249443D, 0x31324D79],
      [0x73656372, 0x65747369, 0x67313837, 0x35213F50, 0x41594944, 0x3D333231, 0x30303132,
       0x334D7973, 0x65637265, 0x74736967, 0x31383735, 0x213F504D, 0x3D437265, 0x64697443,
       0x6172644D, 0x79736563],
      [0x72657473, 0x69673138, 0x3735213F, 0x53544154, 0x55533D39, 0x4D797365, 0x63726574,
       0x73696731, 0x38373521, 0x3F800000, 0, 0, 0, 0, 0, 0x928]]"
  by (simp add: sha1_blocks_def pad64_def bytes_eval chunks.simps del: list.size(4))

lemma sha1_compress_shaout_1:
  "sha1_compress (0x67452301, 0xEFCDAB89, 0x98BADCFE, 0x10325476, 0xC3D2E1F0)
     [0x41434345, 0x5054414E, 0x43453D31, 0x3233344D, 0x79736563, 0x72657473, 0x69673138,
      0x3735213F, 0x414D4F55, 0x4E543D31, 0x354D7973, 0x65637265, 0x74736967, 0x31383735,
      0x213F4252, 0x414E443D] =
   (0x12E96C90, 0x5AF3B8D9, 0xC9A6A260, 0x3DBEF6F6, 0xD2F32ADB)"
  by (simp add: sha1_eval word_eval del: sha1_step.simps word_eval_del)

lemma sha1_compress_shaout_2:
  "sha1_compress (0x12E96C90, 0x5AF3B8D9, 0xC9A6A260, 0x3DBEF6F6, 0xD2F32ADB)
     [0x56495341, 0x4D797365, 0x63726574, 0x73696731, 0x38373521, 0x3F434152, 0x444E4F3D,
      0x78787878, 0x78787878, 0x78787878, 0x31313131, 0x4D797365, 0x63726574, 0x73696731,
      0x38373521, 0x3F435552] =
   (0x3E80CC7D, 0xAC3B3A97, 0xC30F8C76, 0x77345FF3, 0x31D40295)"
  by (simp add: sha1_eval word_eval del: sha1_step.simps word_eval_del)

lemma sha1_compress_shaout_3:
  "sha1_compress (0x3E80CC7D, 0xAC3B3A97, 0xC30F8C76, 0x77345FF3, 0x31D40295)
     [0x52454E43, 0x593D4555, 0x524D7973, 0x65637265, 0x74736967, 0x31383735, 0x213F4E43,
      0x4552524F, 0x523D304D, 0x79736563, 0x72657473, 0x69673138, 0x3735213F, 0x4F524445,
      0x5249443D, 0x31324D79] =
   (0xA61DE7D1, 0xDDA44EE9, 0xBBE92AF9, 0x1EA02D1F, 0xE4673F93)"
  by (simp add: sha1_eval word_eval del: sha1_step.simps word_eval_del)

lemma sha1_compress_shaout_4:
  "sha1_compress (0xA61DE7D1, 0xDDA44EE9, 0xBBE92AF9, 0x1EA02D1F, 0xE4673F93)
     [0x73656372, 0x65747369, 0x67313837, 0x35213F50, 0x41594944, 0x3D333231, 0x30303132,
      0x334D7973, 0x65637265, 0x74736967, 0x31383735, 0x213F504D, 0x3D437265, 0x64697443,
      0x6172644D, 0x79736563] =
   (0x64E03FA3, 0xBE255F7, 0xAC6FF446, 0xEF1494EE, 0x38FDE21D)"
  by (simp add: sha1_eval word_eval del: sha1_step.simps word_eval_del)

lemma sha1_compress_shaout_5:
  "sha1_compress (0x64E03FA3, 0xBE255F7, 0xAC6FF446, 0xEF1494EE, 0x38FDE21D)
     [0x72657473, 0x69673138, 0x3735213F, 0x53544154, 0x55533D39, 0x4D797365, 0x63726574,
      0x73696731, 0x38373521, 0x3F800000, 0, 0, 0, 0, 0, 0x928] =
   (0xB209960D, 0x5703DD10, 0x47F95A0F, 0x97655FFE, 0x5AC8BD52)"
  by (simp add: sha1_eval word_eval del: sha1_step.simps word_eval_del)

lemma sha1_shaout:
  "sha1 ''ACCEPTANCE=1234Mysecretsig1875!?AMOUNT=15Mysecretsig1875!?BRAND=VISAMysecretsig1875!?CARDNO=xxxxxxxxxxxx1111Mysecretsig1875!?CURRENCY=EURMysecretsig1875!?NCERROR=0Mysecretsig1875!?ORDERID=12Mysecretsig1875!?PAYID=32100123Mysecretsig1875!?PM=CreditCardMysecretsig1875!?STATUS=9Mysecretsig1875!?'' =
    [178, 9, 150, 13, 87, 3, 221, 16, 71, 249, 90, 15, 151, 101, 95, 254, 90, 200, 189, 82]"
  by (simp add: sha1_def sha1_init_def sha1_blocks_shaout bytes_eval
      sha1_compress_shaout_1 sha1_compress_shaout_2 sha1_compress_shaout_3 sha1_compress_shaout_4 sha1_compress_shaout_5)


lemma sha512_blocks_c:
  "sha512_blocks ''c'' =
     [[0x6380000000000000, 0, 0, 0, 0, 0, 0, 0, 0, 0, 0, 0, 0, 0, 0, 0x8]]"
  by (simp add: sha512_blocks_def pad128_def bytes_eval chunks.simps del: list.size(4))

lemma sha512_compress_c_1:
  "sha2_compress sha512_params sha512_K
     (0x6A09E667F3BCC908, 0xBB67AE8584CAA73B, 0x3C6EF372FE94F82B, 0xA54FF53A5F1D36F1,
     0x510E527FADE682D1, 0x9B05688C2B3E6C1F, 0x1F83D9ABFB41BD6B, 0x5BE0CD19137E2179)
     [0x6380000000000000, 0, 0, 0, 0, 0, 0, 0, 0, 0, 0, 0, 0, 0, 0, 0x8] =
   (0xACC28DB2BEB7B42B, 0xAA1CB0243D401CCB, 0x4E3FCE44D7B02879, 0xA52799AADFF54152,
    0x2D8822598B2FA664, 0xF9D5156C00C92480, 0x5D75C3868BD56C2A, 0xCB81D37E98E35ADC)"
  by (simp add: sha2_eval word_eval sha512_params_def sha512_K_def
      del: sha2_T1.simps sha2_T2.simps sha2_update.simps sha2_rounds.simps(2) word_eval_del)

lemma sha512_c:
  "sha512 ''c'' =
    [172, 194, 141, 178, 190, 183, 180, 43, 170, 28, 176, 36, 61, 64, 28, 203, 78, 63, 206, 68,
     215, 176, 40, 121, 165, 39, 153, 170, 223, 245, 65, 82, 45, 136, 34, 89, 139, 47, 166,
     100, 249, 213, 21, 108, 0, 201, 36, 128, 93, 117, 195, 134, 139, 213, 108, 42, 203, 129,
     211, 126, 152, 227, 90, 220]"
  by (simp add: sha512_def sha512_init_def sha512_blocks_c bytes_eval
      sha512_compress_c_1)


lemma sha512_blocks_doc:
  "sha512_blocks ''A=bcD=ac'' =
     [[0x413D6263443D6163, 0x8000000000000000, 0, 0, 0, 0, 0, 0, 0, 0, 0, 0, 0, 0, 0, 0x40]]"
  by (simp add: sha512_blocks_def pad128_def bytes_eval chunks.simps del: list.size(4))

lemma sha512_compress_doc_1:
  "sha2_compress sha512_params sha512_K
     (0x6A09E667F3BCC908, 0xBB67AE8584CAA73B, 0x3C6EF372FE94F82B, 0xA54FF53A5F1D36F1,
     0x510E527FADE682D1, 0x9B05688C2B3E6C1F, 0x1F83D9ABFB41BD6B, 0x5BE0CD19137E2179)
     [0x413D6263443D6163, 0x8000000000000000, 0, 0, 0, 0, 0, 0, 0, 0, 0, 0, 0, 0, 0, 0x40] =
   (0xB499539D7E0B2B1F, 0xB5CCFE9FFDDBAD1E, 0xDF345757C094443E, 0xD795662F879FB250,
    0xEEEB22CBB2D2F3C1, 0x29E2CAE735044CDB, 0x7B08397502204B06, 0x83EA370F6D76FB6A)"
  by (simp add: sha2_eval word_eval sha512_params_def sha512_K_def
      del: sha2_T1.simps sha2_T2.simps sha2_update.simps sha2_rounds.simps(2) word_eval_del)

lemma sha512_doc:
  "sha512 ''A=bcD=ac'' =
    [180, 153, 83, 157, 126, 11, 43, 31, 181, 204, 254, 159, 253, 219, 173, 30, 223, 52, 87,
     87, 192, 148, 68, 62, 215, 149, 102, 47, 135, 159, 178, 80, 238, 235, 34, 203, 178, 210,
     243, 193, 41, 226, 202, 231, 53, 4, 76, 219, 123, 8, 57, 117, 2, 32, 75, 6, 131, 234, 55,
     15, 109, 118, 251, 106]"
  by (simp add: sha512_def sha512_init_def sha512_blocks_doc bytes_eval
      sha512_compress_doc_1)







section \<open>The examples of the docstring\<close>

text \<open>
  The three examples of the class docstring, step by step: the sorted list, the string to
  sign and the digest. The steps are stated for any object with the fields they read.
\<close>

lemma filter_data_iff:
  "filter_data self k v \<longleftrightarrow>
     v \<noteq> PStr [] \<and> v \<noteq> PNone \<and>
     upper k \<in> set (if out self then SHA_OUT_FILTER_WORDS else SHA_IN_FILTER_WORDS) \<and>
     k \<noteq> ''SHASIGN''"
  by (auto simp: filter_data_def filter_data_with_def)

lemmas hex_eval = hexdigest_def hex_byte_def upper_def upper_char_def

lemma hexdigest_sha1_abc: "upper (hexdigest (sha1 ''abc'')) = ''A9993E364706816ABA3E25717850C26C9CD0D89D''"
  by (simp add: sha1_abc hex_eval)

lemma hexdigest_sha256_abc:
  "upper (hexdigest (sha256 ''abc'')) = ''BA7816BF8F01CFEA414140DE5DAE2223B00361A396177A9CB410FF61F20015AD''"
  by (simp add: sha256_abc hex_eval)

lemma upper_keys:
  "upper ''NCERROR'' = ''NCERROR''"
  "upper ''PSPID'' = ''PSPID''"
  "upper ''a'' = ''A''"
  "upper ''acceptance'' = ''ACCEPTANCE''"
  "upper ''amount'' = ''AMOUNT''"
  "upper ''brand'' = ''BRAND''"
  "upper ''cardno'' = ''CARDNO''"
  "upper ''currency'' = ''CURRENCY''"
  "upper ''d'' = ''D''"
  "upper ''operation'' = ''OPERATION''"
  "upper ''orderID'' = ''ORDERID''"
  "upper ''orderId'' = ''ORDERID''"
  "upper ''payid'' = ''PAYID''"
  "upper ''pm'' = ''PM''"
  "upper ''status'' = ''STATUS''"
  by (simp_all add: upper_def upper_char_def)

lemma SHA_OUT_keys:
  "''ACCEPTANCE'' \<in> set SHA_OUT_FILTER_WORDS"
  "''AMOUNT'' \<in> set SHA_OUT_FILTER_WORDS"
  "''BRAND'' \<in> set SHA_OUT_FILTER_WORDS"
  "''CARDNO'' \<in> set SHA_OUT_FILTER_WORDS"
  "''CURRENCY'' \<in> set SHA_OUT_FILTER_WORDS"
  "''NCERROR'' \<in> set SHA_OUT_FILTER_WORDS"
  "''ORDERID'' \<in> set SHA_OUT_FILTER_WORDS"
  "''PAYID'' \<in> set SHA_OUT_FILTER_WORDS"
  "''PM'' \<in> set SHA_OUT_FILTER_WORDS"
  "''STATUS'' \<in> set SHA_OUT_FILTER_WORDS"
  by (simp_all add: SHA_OUT_FILTER_WORDS_def)

lemma SHA_IN_keys:
  "''AMOUNT'' \<in> set SHA_IN_FILTER_WORDS"
  "''CURRENCY'' \<in> set SHA_IN_FILTER_WORDS"
  "''OPERATION'' \<in> set SHA_IN_FILTER_WORDS"
  "''ORDERID'' \<in> set SHA_IN_FILTER_WORDS"
  "''PSPID'' \<in> set SHA_IN_FILTER_WORDS"
  by (simp_all add: SHA_IN_FILTER_WORDS_def)

lemma SHA_IN_not_keys:
  "''A'' \<notin> set SHA_IN_FILTER_WORDS"
  "''D'' \<notin> set SHA_IN_FILTER_WORDS"
  by (simp_all add: SHA_IN_FILTER_WORDS_def)

lemmas sort_data_eval = sort_data_def filter_data_iff upper_idem upper_keys

lemma sort_data_shaout:
  "out self \<Longrightarrow>
   sort_data self
     [(''acceptance'', PInt 1234), (''amount'', PInt 15), (''brand'', PStr ''VISA''),
      (''cardno'', PStr ''xxxxxxxxxxxx1111''), (''currency'', PStr ''EUR''), (''NCERROR'', PInt 0),
      (''orderId'', PInt 12), (''payid'', PInt 32100123), (''pm'', PStr ''CreditCard''),
      (''status'', PInt 9)] =
     [(''ACCEPTANCE'', PInt 1234), (''AMOUNT'', PInt 15), (''BRAND'', PStr ''VISA''),
      (''CARDNO'', PStr ''xxxxxxxxxxxx1111''), (''CURRENCY'', PStr ''EUR''), (''NCERROR'', PInt 0),
      (''ORDERID'', PInt 12), (''PAYID'', PInt 32100123), (''PM'', PStr ''CreditCard''),
      (''STATUS'', PInt 9)]"
  by (simp add: sort_data_eval SHA_OUT_keys)

lemma sort_data_shain:
  "\<not> out self \<Longrightarrow>
   sort_data self
     [(''amount'', PInt 1500), (''currency'', PStr ''EUR''), (''operation'', PStr ''RES''),
      (''orderID'', PInt 1234), (''PSPID'', PStr ''MyPSPID'')] =
     [(''AMOUNT'', PInt 1500), (''CURRENCY'', PStr ''EUR''), (''OPERATION'', PStr ''RES''),
      (''ORDERID'', PInt 1234), (''PSPID'', PStr ''MyPSPID'')]"
  by (simp add: sort_data_eval SHA_IN_keys)

lemma sort_data_doc:
  "\<not> out self \<Longrightarrow> sort_data self [(''d'', PStr ''a''), (''a'', PStr ''b'')] = []"
  by (simp add: sort_data_eval SHA_IN_not_keys)

lemmas merge_data_eval = merge_data_def Let_def str_int_def str_nat.simps utf8_def

lemma merge_data_shaout:
  "secret self = PStr ''Mysecretsig1875!?'' \<Longrightarrow> encoding self = utf8 \<Longrightarrow>
   merge_data self
     [(''ACCEPTANCE'', PInt 1234), (''AMOUNT'', PInt 15), (''BRAND'', PStr ''VISA''),
      (''CARDNO'', PStr ''xxxxxxxxxxxx1111''), (''CURRENCY'', PStr ''EUR''), (''NCERROR'', PInt 0),
      (''ORDERID'', PInt 12), (''PAYID'', PInt 32100123), (''PM'', PStr ''CreditCard''),
      (''STATUS'', PInt 9)] =
   Inr ''ACCEPTANCE=1234Mysecretsig1875!?AMOUNT=15Mysecretsig1875!?BRAND=VISAMysecretsig1875!?CARDNO=xxxxxxxxxxxx1111Mysecretsig1875!?CURRENCY=EURMysecretsig1875!?NCERROR=0Mysecretsig1875!?ORDERID=12Mysecretsig1875!?PAYID=32100123Mysecretsig1875!?PM=CreditCardMysecretsig1875!?STATUS=9Mysecretsig1875!?''"
  by (simp add: merge_data_eval)

lemma merge_data_shain:
  "secret self = PStr ''Mysecretsig1875!?'' \<Longrightarrow> encoding self = utf8 \<Longrightarrow>
   merge_data self
     [(''AMOUNT'', PInt 1500), (''CURRENCY'', PStr ''EUR''), (''OPERATION'', PStr ''RES''),
      (''ORDERID'', PInt 1234), (''PSPID'', PStr ''MyPSPID'')] =
   Inr ''AMOUNT=1500Mysecretsig1875!?CURRENCY=EURMysecretsig1875!?OPERATION=RESMysecretsig1875!?ORDERID=1234Mysecretsig1875!?PSPID=MyPSPIDMysecretsig1875!?''"
  by (simp add: merge_data_eval)

lemma merge_data_empty:
  "secret self = PStr ''c'' \<Longrightarrow> encoding self = utf8 \<Longrightarrow> merge_data self [] = Inr ''c''"
  by (simp add: merge_data_eval)

lemma merge_data_doc:
  "secret self = PStr ''c'' \<Longrightarrow> encoding self = utf8 \<Longrightarrow>
   merge_data self [(''A'', PStr ''b''), (''D'', PStr ''a'')] = Inr ''A=bcD=ac''"
  by (simp add: merge_data_eval)

lemma sign_string_shaout:
  "hash_method self = ''sha1'' \<Longrightarrow>
   sign_string self ''ACCEPTANCE=1234Mysecretsig1875!?AMOUNT=15Mysecretsig1875!?BRAND=VISAMysecretsig1875!?CARDNO=xxxxxxxxxxxx1111Mysecretsig1875!?CURRENCY=EURMysecretsig1875!?NCERROR=0Mysecretsig1875!?ORDERID=12Mysecretsig1875!?PAYID=32100123Mysecretsig1875!?PM=CreditCardMysecretsig1875!?STATUS=9Mysecretsig1875!?'' =
   Inr ''B209960D5703DD1047F95A0F97655FFE5AC8BD52''"
  by (simp add: sign_string_def hashlib_def sha1_shaout hex_eval)

lemma sign_string_shain:
  "hash_method self = ''sha1'' \<Longrightarrow>
   sign_string self ''AMOUNT=1500Mysecretsig1875!?CURRENCY=EURMysecretsig1875!?OPERATION=RESMysecretsig1875!?ORDERID=1234Mysecretsig1875!?PSPID=MyPSPIDMysecretsig1875!?'' =
   Inr ''EB52902BCC4B50DC1250E5A7C1068ECF97751256''"
  by (simp add: sign_string_def hashlib_def sha1_shain hex_eval)

lemma sign_string_c:
  "hash_method self = ''sha512'' \<Longrightarrow>
   sign_string self ''c'' =
   Inr ''ACC28DB2BEB7B42BAA1CB0243D401CCB4E3FCE44D7B02879A52799AADFF541522D8822598B2FA664F9D5156C00C924805D75C3868BD56C2ACB81D37E98E35ADC''"
  by (simp add: sign_string_def hashlib_def sha512_c hex_eval)

lemma sign_string_doc:
  "hash_method self = ''sha512'' \<Longrightarrow>
   sign_string self ''A=bcD=ac'' =
   Inr ''B499539D7E0B2B1FB5CCFE9FFDDBAD1EDF345757C094443ED795662F879FB250EEEB22CBB2D2F3C129E2CAE735044CDB7B08397502204B0683EA370F6D76FB6A''"
  by (simp add: sign_string_def hashlib_def sha512_doc hex_eval)

lemma new_signature_shaout:
  "new_signature
     [(''acceptance'', PInt 1234), (''amount'', PInt 15), (''brand'', PStr ''VISA''),
      (''cardno'', PStr ''xxxxxxxxxxxx1111''), (''currency'', PStr ''EUR''), (''NCERROR'', PInt 0),
      (''orderId'', PInt 12), (''payid'', PInt 32100123), (''pm'', PStr ''CreditCard''),
      (''status'', PInt 9)]
     ''sha1'' (PStr ''Mysecretsig1875!?'') utf8 True =
   Inr ''B209960D5703DD1047F95A0F97655FFE5AC8BD52''"
  by (simp add: new_signature_def init_def signature_def sort_data_shaout merge_data_shaout
      sign_string_shaout)

lemma new_signature_shain:
  "new_signature
     [(''amount'', PInt 1500), (''currency'', PStr ''EUR''), (''operation'', PStr ''RES''),
      (''orderID'', PInt 1234), (''PSPID'', PStr ''MyPSPID'')]
     ''sha1'' (PStr ''Mysecretsig1875!?'') utf8 False =
   Inr ''EB52902BCC4B50DC1250E5A7C1068ECF97751256''"
  by (simp add: new_signature_def init_def signature_def sort_data_shain merge_data_shain
      sign_string_shain)

lemma new_signature_doc:
  "new_signature [(''d'', PStr ''a''), (''a'', PStr ''b'')] ''sha512'' (PStr ''c'') utf8 False =
   Inr ''ACC28DB2BEB7B42BAA1CB0243D401CCB4E3FCE44D7B02879A52799AADFF541522D8822598B2FA664F9D5156C00C924805D75C3868BD56C2ACB81D37E98E35ADC''"
  by (simp add: new_signature_def init_def signature_def sort_data_doc merge_data_empty
      sign_string_c)

lemma told_apart_shaout:
  "told_apart
     [(''acceptance'', PInt 1234), (''amount'', PInt 15), (''brand'', PStr ''VISA''),
      (''cardno'', PStr ''xxxxxxxxxxxx1111''), (''currency'', PStr ''EUR''), (''NCERROR'', PInt 0),
      (''orderId'', PInt 12), (''payid'', PInt 32100123), (''pm'', PStr ''CreditCard''),
      (''status'', PInt 9)]"
  by (rule distinct_upper_told_apart) (simp add: upper_keys)

lemma told_apart_shain:
  "told_apart
     [(''amount'', PInt 1500), (''currency'', PStr ''EUR''), (''operation'', PStr ''RES''),
      (''orderID'', PInt 1234), (''PSPID'', PStr ''MyPSPID'')]"
  by (rule distinct_upper_told_apart) (simp add: upper_keys)

subsection \<open>Two values of the same rank\<close>









section \<open>The claims\<close>

subsection \<open>Worked examples\<close>

text \<open>
  Claim C1. For the mapping with the entries acceptance 1234, amount 15, brand VISA,
  cardno xxxxxxxxxxxx1111, currency EUR, NCERROR 0, orderId 12, payid 32100123,
  pm CreditCard and status 9, in whatever order the dictionary yields them, the secret
  \<^verbatim>\<open>Mysecretsig1875!?\<close>, the method \<^verbatim>\<open>sha1\<close> and \<^verbatim>\<open>out=True\<close>, the call
  \<^verbatim>\<open>signature()\<close> returns \<^verbatim>\<open>B209960D5703DD1047F95A0F97655FFE5AC8BD52\<close>.
\<close>

theorem signature_shaout_example:
  "mset d = mset
     [(''acceptance'', PInt 1234), (''amount'', PInt 15), (''brand'', PStr ''VISA''),
      (''cardno'', PStr ''xxxxxxxxxxxx1111''), (''currency'', PStr ''EUR''), (''NCERROR'', PInt 0),
      (''orderId'', PInt 12), (''payid'', PInt 32100123), (''pm'', PStr ''CreditCard''),
      (''status'', PInt 9)] \<Longrightarrow>
   new_signature d ''sha1'' (PStr ''Mysecretsig1875!?'') utf8 True =
     Inr ''B209960D5703DD1047F95A0F97655FFE5AC8BD52''"
proof -
  assume perm: "mset d = mset
     [(''acceptance'', PInt 1234), (''amount'', PInt 15), (''brand'', PStr ''VISA''),
      (''cardno'', PStr ''xxxxxxxxxxxx1111''), (''currency'', PStr ''EUR''), (''NCERROR'', PInt 0),
      (''orderId'', PInt 12), (''payid'', PInt 32100123), (''pm'', PStr ''CreditCard''),
      (''status'', PInt 9)]"
  have "told_apart d"
    using told_apart_cong_mset [OF perm] told_apart_shaout by (rule iffD2)
  from new_signature_cong_mset [OF perm this] show ?thesis
    by (simp only: new_signature_shaout)
qed

theorem signature_shaout_example_witness:
  "mset
     [(''status'', PInt 9), (''pm'', PStr ''CreditCard''), (''payid'', PInt 32100123),
      (''orderId'', PInt 12), (''NCERROR'', PInt 0), (''currency'', PStr ''EUR''),
      (''cardno'', PStr ''xxxxxxxxxxxx1111''), (''brand'', PStr ''VISA''), (''amount'', PInt 15),
      (''acceptance'', PInt 1234)] =
   mset
     [(''acceptance'', PInt 1234), (''amount'', PInt 15), (''brand'', PStr ''VISA''),
      (''cardno'', PStr ''xxxxxxxxxxxx1111''), (''currency'', PStr ''EUR''), (''NCERROR'', PInt 0),
      (''orderId'', PInt 12), (''payid'', PInt 32100123), (''pm'', PStr ''CreditCard''),
      (''status'', PInt 9)] \<and>
   new_signature
     [(''status'', PInt 9), (''pm'', PStr ''CreditCard''), (''payid'', PInt 32100123),
      (''orderId'', PInt 12), (''NCERROR'', PInt 0), (''currency'', PStr ''EUR''),
      (''cardno'', PStr ''xxxxxxxxxxxx1111''), (''brand'', PStr ''VISA''), (''amount'', PInt 15),
      (''acceptance'', PInt 1234)]
     ''sha1'' (PStr ''Mysecretsig1875!?'') utf8 True =
     Inr ''B209960D5703DD1047F95A0F97655FFE5AC8BD52''"
proof -
  have perm: "mset
     [(''status'', PInt 9), (''pm'', PStr ''CreditCard''), (''payid'', PInt 32100123),
      (''orderId'', PInt 12), (''NCERROR'', PInt 0), (''currency'', PStr ''EUR''),
      (''cardno'', PStr ''xxxxxxxxxxxx1111''), (''brand'', PStr ''VISA''), (''amount'', PInt 15),
      (''acceptance'', PInt 1234)] =
    mset
     [(''acceptance'', PInt 1234), (''amount'', PInt 15), (''brand'', PStr ''VISA''),
      (''cardno'', PStr ''xxxxxxxxxxxx1111''), (''currency'', PStr ''EUR''), (''NCERROR'', PInt 0),
      (''orderId'', PInt 12), (''payid'', PInt 32100123), (''pm'', PStr ''CreditCard''),
      (''status'', PInt 9)]"
    by simp
  from signature_shaout_example [OF perm] perm show ?thesis
    by (rule conjI [rotated])
qed

text \<open>
  Claim C2. For the mapping with the entries amount 1500, currency EUR, operation RES,
  orderID 1234 and PSPID MyPSPID, in whatever order the dictionary yields them, the secret
  \<^verbatim>\<open>Mysecretsig1875!?\<close>, the method \<^verbatim>\<open>sha1\<close> and the default \<^verbatim>\<open>out=False\<close>, the call
  \<^verbatim>\<open>signature()\<close> returns \<^verbatim>\<open>EB52902BCC4B50DC1250E5A7C1068ECF97751256\<close>.
\<close>

theorem signature_shain_example:
  "mset d = mset
     [(''amount'', PInt 1500), (''currency'', PStr ''EUR''), (''operation'', PStr ''RES''),
      (''orderID'', PInt 1234), (''PSPID'', PStr ''MyPSPID'')] \<Longrightarrow>
   new_signature d ''sha1'' (PStr ''Mysecretsig1875!?'') utf8 False =
     Inr ''EB52902BCC4B50DC1250E5A7C1068ECF97751256''"
proof -
  assume perm: "mset d = mset
     [(''amount'', PInt 1500), (''currency'', PStr ''EUR''), (''operation'', PStr ''RES''),
      (''orderID'', PInt 1234), (''PSPID'', PStr ''MyPSPID'')]"
  have "told_apart d"
    using told_apart_cong_mset [OF perm] told_apart_shain by (rule iffD2)
  from new_signature_cong_mset [OF perm this] show ?thesis
    by (simp only: new_signature_shain)
qed

theorem signature_shain_example_witness:
  "mset
     [(''PSPID'', PStr ''MyPSPID''), (''orderID'', PInt 1234), (''operation'', PStr ''RES''),
      (''currency'', PStr ''EUR''), (''amount'', PInt 1500)] =
   mset
     [(''amount'', PInt 1500), (''currency'', PStr ''EUR''), (''operation'', PStr ''RES''),
      (''orderID'', PInt 1234), (''PSPID'', PStr ''MyPSPID'')] \<and>
   new_signature
     [(''PSPID'', PStr ''MyPSPID''), (''orderID'', PInt 1234), (''operation'', PStr ''RES''),
      (''currency'', PStr ''EUR''), (''amount'', PInt 1500)]
     ''sha1'' (PStr ''Mysecretsig1875!?'') utf8 False =
     Inr ''EB52902BCC4B50DC1250E5A7C1068ECF97751256''"
proof -
  have perm: "mset
     [(''PSPID'', PStr ''MyPSPID''), (''orderID'', PInt 1234), (''operation'', PStr ''RES''),
      (''currency'', PStr ''EUR''), (''amount'', PInt 1500)] =
    mset
     [(''amount'', PInt 1500), (''currency'', PStr ''EUR''), (''operation'', PStr ''RES''),
      (''orderID'', PInt 1234), (''PSPID'', PStr ''MyPSPID'')]"
    by simp
  from signature_shain_example [OF perm] perm show ?thesis
    by (rule conjI [rotated])
qed

text \<open>
  Claim C3. For the mapping with d = a and a = b, the secret \<^verbatim>\<open>c\<close>, the method
  \<^verbatim>\<open>sha512\<close> and \<^verbatim>\<open>out=False\<close>, the claim and the first example of the docstring say
  that \<^verbatim>\<open>_sort_data\<close> gives the pairs (A, b) and (D, a), \<^verbatim>\<open>_merge_data\<close> the string
  \<^verbatim>\<open>A=bcD=ac\<close> and \<^verbatim>\<open>signature()\<close> the digest that starts with B499. The code does
  something else: neither A nor D is in \<open>SHA_IN_FILTER_WORDS\<close>, so \<^verbatim>\<open>_sort_data\<close> gives
  the empty list, \<^verbatim>\<open>_merge_data\<close> of it gives the secret alone, and \<^verbatim>\<open>signature()\<close>
  returns the SHA-512 digest of \<^verbatim>\<open>c\<close>. Only the last two steps of the example hold,
  when they are given the pairs and the string of the docstring.
\<close>

theorem doc_example_filtered:
  "init [(''d'', PStr ''a''), (''a'', PStr ''b'')] ''sha512'' (PStr ''c'') utf8 False =
     Inr \<lparr>data = [(''d'', PStr ''a''), (''a'', PStr ''b'')], hash_method = ''sha512'',
        secret = PStr ''c'', encoding = utf8, out = False\<rparr> \<and>
   sort_data
     \<lparr>data = [(''d'', PStr ''a''), (''a'', PStr ''b'')], hash_method = ''sha512'',
        secret = PStr ''c'', encoding = utf8, out = False\<rparr>
     [(''d'', PStr ''a''), (''a'', PStr ''b'')] = [] \<and>
   merge_data
     \<lparr>data = [(''d'', PStr ''a''), (''a'', PStr ''b'')], hash_method = ''sha512'',
        secret = PStr ''c'', encoding = utf8, out = False\<rparr> [] = Inr ''c'' \<and>
   signature
     \<lparr>data = [(''d'', PStr ''a''), (''a'', PStr ''b'')], hash_method = ''sha512'',
        secret = PStr ''c'', encoding = utf8, out = False\<rparr> =
     Inr ''ACC28DB2BEB7B42BAA1CB0243D401CCB4E3FCE44D7B02879A52799AADFF541522D8822598B2FA664F9D5156C00C924805D75C3868BD56C2ACB81D37E98E35ADC'' \<and>
   merge_data
     \<lparr>data = [(''d'', PStr ''a''), (''a'', PStr ''b'')], hash_method = ''sha512'',
        secret = PStr ''c'', encoding = utf8, out = False\<rparr>
     [(''A'', PStr ''b''), (''D'', PStr ''a'')] = Inr ''A=bcD=ac'' \<and>
   sign_string
     \<lparr>data = [(''d'', PStr ''a''), (''a'', PStr ''b'')], hash_method = ''sha512'',
        secret = PStr ''c'', encoding = utf8, out = False\<rparr>
     ''A=bcD=ac'' =
     Inr ''B499539D7E0B2B1FB5CCFE9FFDDBAD1EDF345757C094443ED795662F879FB250EEEB22CBB2D2F3C129E2CAE735044CDB7B08397502204B0683EA370F6D76FB6A''"
  by (simp add: init_def signature_def sort_data_doc merge_data_empty merge_data_doc sign_string_c
      sign_string_doc)

subsection \<open>Keys that differ in case\<close>

text \<open>
  Claim C4 says that two keys that differ only in letter case collapse into one pair of the
  sorted list, the last one winning, so that the list never holds two pairs with the same
  upper-case key. It does not hold: \<^verbatim>\<open>_sort_data\<close> builds a list, not a dictionary, and
  keeps both pairs.
\<close>

theorem case_variants_counterexample:
  "sort_data
     \<lparr>data = [(''Amount'', PInt 1), (''AMOUNT'', PInt 2)], hash_method = ''sha1'',
      secret = PStr ''c'', encoding = utf8, out = False\<rparr>
     [(''Amount'', PInt 1), (''AMOUNT'', PInt 2)] =
   [(''AMOUNT'', PInt 1), (''AMOUNT'', PInt 2)]"
  by (simp add: sort_data_def filter_data_iff upper_idem upper_Amount SHA_IN_keys)

text \<open>
  Claim C4, amended. Keys that differ only in letter case get the same upper-case key and
  are not collapsed: the sorted list holds exactly one pair, upper-case key and value, for
  every entry of the mapping that passes the filter, so it can hold several pairs with the
  same key; the list is sorted by key and then by value, and pairs that compare equal
  stay in the order of the iteration.
\<close>

theorem sort_data_keeps_every_entry:
  "mset (sort_data self d) =
     image_mset (\<lambda>(k, v). (upper k, v))
       (filter_mset (\<lambda>(k, v). filter_data self (upper k) v) (mset d)) \<and>
   sorted (map tuple_rank (sort_data self d)) \<and>
   (\<forall>r. filter (\<lambda>p. tuple_rank p = r) (sort_data self d) =
        filter (\<lambda>p. tuple_rank p = r)
          [(upper k, v). (k, v) \<leftarrow> d, filter_data self (upper k) v])"
  by (simp add: mset_sort_data) (simp add: sort_data_def sort_key_stable)

subsection \<open>Order of the mapping\<close>




subsection \<open>What the filter removes\<close>

text \<open>
  Claim C6. In both directions, an entry whose upper-case key is not in the word list of
  the direction (\<open>SHA_OUT_FILTER_WORDS\<close> when \<open>out\<close> is set, \<open>SHA_IN_FILTER_WORDS\<close>
  otherwise) is left out by \<^verbatim>\<open>_sort_data\<close>: no pair of the sorted list has its key, and the
  sorted list and the string to sign are those of the mapping without the entry.
\<close>

theorem key_outside_word_list_excluded:
  "(k, v) \<in> set d \<Longrightarrow>
   upper k \<notin> set (if out self then SHA_OUT_FILTER_WORDS else SHA_IN_FILTER_WORDS) \<Longrightarrow>
     upper k \<notin> fst ` set (sort_data self d) \<and>
     sort_data self (removeAll (k, v) d) = sort_data self d \<and>
     merge_data self (sort_data self (removeAll (k, v) d)) = merge_data self (sort_data self d)"
  using sort_data_keys [of self d] sort_data_excluded(2) [OF not_filter_data_words, of k self v d]
  by auto

theorem key_outside_word_list_excluded_witness:
  "(''foo'', PStr ''x'') \<in> set [(''foo'', PStr ''x''), (''amount'', PInt 15)] \<and>
   upper ''foo'' \<notin> set SHA_IN_FILTER_WORDS \<and>
   upper ''foo'' \<notin> fst ` set (sort_data
      \<lparr>data = [(''foo'', PStr ''x''), (''amount'', PInt 15)], hash_method = ''sha1'',
       secret = PStr ''c'', encoding = utf8, out = False\<rparr>
      [(''foo'', PStr ''x''), (''amount'', PInt 15)])"
proof -
  let ?d = "[(''foo'', PStr ''x''), (''amount'', PInt 15)]"
  let ?self = "\<lparr>data = ?d, hash_method = ''sha1'', secret = PStr ''c'', encoding = utf8,
                out = False\<rparr>"
  have 1: "(''foo'', PStr ''x'') \<in> set ?d"
    by simp
  have 2: "upper ''foo'' \<notin> set (if out ?self then SHA_OUT_FILTER_WORDS else SHA_IN_FILTER_WORDS)"
    by (simp add: upper_def upper_char_def SHA_IN_FILTER_WORDS_def)
  from key_outside_word_list_excluded [OF 1 2] 1 2 show ?thesis
    by simp
qed

text \<open>
  Claim C7. In both directions, an entry whose value is the empty string or \<^verbatim>\<open>None\<close> is
  left out, whatever its key: its pair is not in the sorted list, and the sorted list and
  the string to sign are those of the mapping without the entry.
\<close>

theorem empty_value_excluded:
  "(k, v) \<in> set d \<Longrightarrow> v = PStr [] \<or> v = PNone \<Longrightarrow>
     (upper k, v) \<notin> set (sort_data self d) \<and>
     sort_data self (removeAll (k, v) d) = sort_data self d \<and>
     merge_data self (sort_data self (removeAll (k, v) d)) = merge_data self (sort_data self d)"
proof -
  assume "v = PStr [] \<or> v = PNone"
  then have "\<not> filter_data self (upper k) v"
    using filter_data_value by blast
  then show ?thesis
    using sort_data_excluded [of self k v d] by simp
qed

theorem empty_value_excluded_witness:
  "(''amount'', PStr []) \<in> set [(''amount'', PStr []), (''currency'', PStr ''EUR'')] \<and>
   (upper ''amount'', PStr []) \<notin> set (sort_data
      \<lparr>data = [(''amount'', PStr []), (''currency'', PStr ''EUR'')], hash_method = ''sha1'',
       secret = PStr ''c'', encoding = utf8, out = False\<rparr>
      [(''amount'', PStr []), (''currency'', PStr ''EUR'')])"
  using empty_value_excluded
    [of "''amount''" "PStr []" "[(''amount'', PStr []), (''currency'', PStr ''EUR'')]"]
  by simp

text \<open>
  Claim C8. In both directions, an entry whose key is exactly \<^verbatim>\<open>SHASIGN\<close> is left out: the
  filter rejects the key whatever the two word lists contain, no pair of the sorted list
  has the key \<^verbatim>\<open>SHASIGN\<close>, and the sorted list and the string to sign are those of the
  mapping without the entry.
\<close>

theorem SHASIGN_excluded:
  "(''SHASIGN'', v) \<in> set d \<Longrightarrow>
     \<not> filter_data_with in_words out_words self (upper ''SHASIGN'') v \<and>
     ''SHASIGN'' \<notin> fst ` set (sort_data self d) \<and>
     sort_data self (removeAll (''SHASIGN'', v) d) = sort_data self d \<and>
     merge_data self (sort_data self (removeAll (''SHASIGN'', v) d)) =
       merge_data self (sort_data self d)"
proof -
  have "\<not> filter_data self (upper ''SHASIGN'') v"
    by (simp add: upper_SHASIGN filter_data_SHASIGN)
  then show ?thesis
    using sort_data_keys [of self d] sort_data_excluded(2) [of self "''SHASIGN''" v d]
    by (auto simp: upper_SHASIGN filter_data_with_SHASIGN)
qed

theorem SHASIGN_excluded_witness:
  "(''SHASIGN'', PStr ''AB12'') \<in> set [(''SHASIGN'', PStr ''AB12''), (''amount'', PInt 15)] \<and>
   ''SHASIGN'' \<notin> fst ` set (sort_data
      \<lparr>data = [(''SHASIGN'', PStr ''AB12''), (''amount'', PInt 15)], hash_method = ''sha1'',
       secret = PStr ''c'', encoding = utf8, out = True\<rparr>
      [(''SHASIGN'', PStr ''AB12''), (''amount'', PInt 15)])"
  using SHASIGN_excluded [of "PStr ''AB12''" "[(''SHASIGN'', PStr ''AB12''), (''amount'', PInt 15)]"]
  by simp



subsection \<open>Construction\<close>

text \<open>
  Claim C9 says that construction fails when the method is not one of the three names and
  when the secret is empty or \<^verbatim>\<open>None\<close>. The assertion tests \<^verbatim>\<open>str(secret)\<close>, and
  \<^verbatim>\<open>str(None)\<close> is the string \<^verbatim>\<open>None\<close>: with the secret \<^verbatim>\<open>None\<close> the constructor
  returns an object.
\<close>

theorem init_accepts_None_secret:
  "init d ''sha1'' PNone enc b =
     Inr \<lparr>data = d, hash_method = ''sha1'', secret = PNone, encoding = enc, out = b\<rparr>"
  by (simp add: init_def)

end
